theory Spec2Isabelle
  imports Complex_Main "HOL-Library.AList"
begin

section \<open>Python values, objects and callables\<close>

text \<open>
  The decorators of \<^verbatim>\<open>pojang/app.py\<close> work by reflection on Python callables and on the
  objects passed to them. The embedding keeps what the code looks at:

  \<^item> immutable values (\<^verbatim>\<open>None\<close>, integers, strings, tuples and the marker class
    \<^verbatim>\<open>inspect.Parameter.empty\<close>). Python's \<^verbatim>\<open>bool\<close> is a subclass of \<^verbatim>\<open>int\<close> with
    \<^verbatim>\<open>True == 1\<close>, so truth values are the integers 1 and 0; with that, structural
    equality of the datatype is Python's \<^verbatim>\<open>==\<close> on these values;
  \<^item> mutable list objects, held in an explicit store and passed by reference, so that
    a function body can change an argument in place and a wrapper that kept the
    reference sees the change;
  \<^item> the registry instance itself (\<^verbatim>\<open>self\<close>), which \<^verbatim>\<open>fire_if\<close> passes to its
    predicate.
\<close>

datatype imm =
    INone
  | IInt int
  | IStr string
  | IEmpty
  | ITuple "imm list"

type_synonym addr = nat

datatype pyval =
    Imm imm
  | Ref addr
  | Self

text \<open>The store: every address holds the current contents of one list object.\<close>

type_synonym heap = "addr \<Rightarrow> imm list"

text \<open>
  The value of an argument as \<^verbatim>\<open>copy.deepcopy\<close> captures it and as \<^verbatim>\<open>!=\<close> compares it:
  a reference is followed to the contents of its list.
\<close>

datatype dval =
    DImm imm
  | DList "imm list"
  | DSelf

fun deep :: "heap \<Rightarrow> pyval \<Rightarrow> dval" where
  "deep h (Imm i) = DImm i"
| "deep h (Ref a) = DList (h a)"
| "deep h Self = DSelf"

text \<open>
  Exceptions. \<^verbatim>\<open>MutatedReferenceError\<close> carries the three fields its message is
  formatted from: the argument name, the value before and the value after the call.
  A \<^verbatim>\<open>ValueError\<close> carries the fixed opening words of its message.
\<close>

datatype pyerr =
    TypeError
  | ValueError string
  | KeyError
  | NotClassException
  | MutatedReferenceError string dval dval
  | OtherError string

type_synonym kwargs = "(string \<times> pyval) list"

text \<open>
  A Python function object: its identity as an object, the attributes
  \<^verbatim>\<open>__module__\<close> and \<^verbatim>\<open>__qualname__\<close>, the parameters of \<^verbatim>\<open>inspect.signature\<close> in
  order (a name and the default, \<open>None\<close> where \<^verbatim>\<open>inspect\<close> reports
  \<^verbatim>\<open>Parameter.empty\<close>), the names of its local variables (they follow the parameter
  names in \<^verbatim>\<open>__code__.co_varnames\<close>), and its body, which receives the bound parameters
  and the store and either raises or returns a value, leaving a new store.
  Parameters are positional-or-keyword; \<^verbatim>\<open>*args\<close> and \<^verbatim>\<open>**kwargs\<close> parameters of the
  wrapped function are outside the model.
\<close>

record pyfunc =
  fn_id :: nat
  fn_module :: string
  fn_qualname :: string
  fn_params :: "(string \<times> pyval option) list"
  fn_locals :: "string list"
  fn_body :: "(string \<times> pyval) list \<Rightarrow> heap \<Rightarrow> (pyerr + pyval) \<times> heap"

section \<open>Identity resolution (\<^verbatim>\<open>helper/util.py\<close>)\<close>

text \<open>\<^verbatim>\<open>return f'{func.__module__}.{func.__qualname__}'\<close>\<close>

definition get_unique_func_name :: "pyfunc \<Rightarrow> string" where
  "get_unique_func_name func = fn_module func @ ''.'' @ fn_qualname func"

section \<open>The registry (\<^verbatim>\<open>Pojang\<close>, \<^verbatim>\<open>Yeezy\<close>)\<close>

text \<open>
  Modelled from the spec: the classes \<^verbatim>\<open>Statistics\<close> and \<^verbatim>\<open>TimeStatistics\<close> of
  \<^verbatim>\<open>helper/properties.py\<close> are imported by \<^verbatim>\<open>app.py\<close> but are not among the sources.
  The spec describes the aggregate as a mutable record of a call count and a
  cumulative/average duration, updated after every call of the wrapped function; a new
  aggregate has seen no call.
\<close>

record statistics =
  count :: nat
  cumulative :: real

definition new_statistics :: statistics where
  "new_statistics = \<lparr>count = 0, cumulative = 0\<rparr>"

text \<open>Modelled from the spec: \<^verbatim>\<open>update(time_elapsed)\<close> feeds one duration into the aggregate.\<close>

definition update_statistics :: "statistics \<Rightarrow> real \<Rightarrow> statistics" where
  "update_statistics s time_elapsed =
     s\<lparr>count := count s + 1, cumulative := cumulative s + time_elapsed\<rparr>"


text \<open>
  A registration entry is the dictionary
  \<^verbatim>\<open>{'name': func_name, 'func': func, 'props': props}\<close>, to which \<^verbatim>\<open>stopwatch\<close> adds the
  key \<^verbatim>\<open>'input'\<close>; \<open>None\<close> stands for the absent key.
\<close>

record entry =
  entry_name :: string
  entry_func :: pyfunc
  entry_props :: statistics
  entry_input :: "real option"

text \<open>
  The part of a \<^verbatim>\<open>Pojang\<close> instance the decorators read and write:
  \<^verbatim>\<open>self.functions\<close> (an \<^verbatim>\<open>OrderedDict\<close>: an association list in insertion order),
  \<^verbatim>\<open>self.config['debug']\<close>, the constructor's \<^verbatim>\<open>log_path\<close>, which decides what
  \<^verbatim>\<open>self.log\<close> is, and the lines that \<^verbatim>\<open>self.log\<close> has written, oldest first.
\<close>

record pojang =
  functions_dict :: "(string \<times> entry) list"
  debug :: bool
  log_path :: "string option"
  log_lines :: "string list"

definition new_pojang :: "bool \<Rightarrow> string option \<Rightarrow> pojang" where
  "new_pojang dbg path = \<lparr>functions_dict = [], debug = dbg, log_path = path, log_lines = []\<rparr>"

text \<open>
  \<^verbatim>\<open>self.log = util.logger_factory(log_path, module_name) if log_path else print\<close>:
  without a path, and with the empty string, the logger is \<^verbatim>\<open>print\<close>.
\<close>

definition uses_print :: "pojang \<Rightarrow> bool" where
  "uses_print pj = (case log_path pj of None \<Rightarrow> True | Some path \<Rightarrow> path = [])"

text \<open>
  \<^verbatim>\<open>self.log(msg)\<close>. \<^verbatim>\<open>print\<close> writes the line. The \<^verbatim>\<open>write\<close> that
  \<^verbatim>\<open>logger_factory\<close> returns is \<^verbatim>\<open>logger.log(contents_to_write)\<close>; the method is
  \<^verbatim>\<open>Logger.log(level, msg, ...)\<close>, so that call has no \<^verbatim>\<open>msg\<close> and raises
  \<^verbatim>\<open>TypeError\<close> before anything is written. An operation of the registry returns the
  exception it raised, if any, and the registry as it left it.
\<close>

definition log_msg :: "pojang \<Rightarrow> string \<Rightarrow> pyerr option \<times> pojang" where
  "log_msg pj msg =
     (if uses_print pj then (None, pj\<lparr>log_lines := log_lines pj @ [msg]\<rparr>)
      else (Some TypeError, pj))"

text \<open>\<^verbatim>\<open>if self.debug: self.log(f'DEBUG: {msg}')\<close>\<close>

definition log_debug :: "pojang \<Rightarrow> string \<Rightarrow> pyerr option \<times> pojang" where
  "log_debug pj msg = (if debug pj then log_msg pj (''DEBUG: '' @ msg) else (None, pj))"

text \<open>
  The two messages of the registry:
  \<^verbatim>\<open>f"Found duplicate decorator with identity: {func_name}"\<close> and
  \<^verbatim>\<open>f"Decorated function with unique id: {func_name}"\<close>.
\<close>

definition duplicate_msg :: "string \<Rightarrow> string" where
  "duplicate_msg func_name = ''Found duplicate decorator with identity: '' @ func_name"

definition decorated_msg :: "string \<Rightarrow> string" where
  "decorated_msg func_name = ''Decorated function with unique id: '' @ func_name"

text \<open>
  \<^verbatim>\<open>Pojang._update_decoration_info\<close> (the same text in \<^verbatim>\<open>Yeezy\<close>): a name that is
  already a key is only reported through \<^verbatim>\<open>log_debug\<close>; a new name gets its entry at
  the end of the dictionary.
\<close>

definition update_decoration_info :: "pojang \<Rightarrow> string \<Rightarrow> pyfunc \<Rightarrow> statistics \<Rightarrow> pyerr option \<times> pojang" where
  "update_decoration_info pj func_name func props =
     (if func_name \<in> fst ` set (functions_dict pj)
      then log_debug pj (duplicate_msg func_name)
      else (None, pj\<lparr>functions_dict := functions_dict pj @
             [(func_name, \<lparr>entry_name = func_name, entry_func = func,
                           entry_props = props, entry_input = None\<rparr>)]\<rparr>))"

text \<open>
  The decoration step of \<^verbatim>\<open>Pojang.trace\<close> (\<^verbatim>\<open>inner_function\<close>, before the wrapper is
  built): the identity is resolved, a debug line is written, the function is
  registered with a fresh \<^verbatim>\<open>Statistics(func)\<close>, and then the source line of the
  caller is read,
  \<^verbatim>\<open>inspect.stack()[1].code_context[0].strip()\<close>. \<^verbatim>\<open>code_context\<close> is \<^verbatim>\<open>None\<close> when
  the decorating code has no source text (\<^verbatim>\<open>python -c\<close>, \<^verbatim>\<open>exec\<close>), and subscripting
  it raises \<^verbatim>\<open>TypeError\<close>; \<open>has_source\<close> says whether the text is there.
\<close>

definition trace_decorate :: "pojang \<Rightarrow> pyfunc \<Rightarrow> bool \<Rightarrow> pyerr option \<times> pojang" where
  "trace_decorate pj func has_source =
     (let func_name = get_unique_func_name func in
      case log_debug pj (decorated_msg func_name) of
        (Some e, pj1) \<Rightarrow> (Some e, pj1)
      | (None, pj1) \<Rightarrow>
          (case update_decoration_info pj1 func_name func new_statistics of
             (Some e, pj2) \<Rightarrow> (Some e, pj2)
           | (None, pj2) \<Rightarrow> (if has_source then (None, pj2) else (Some TypeError, pj2))))"

text \<open>
  The decoration step of \<^verbatim>\<open>Pojang.stopwatch\<close> (\<^verbatim>\<open>decorator\<close>): the line is written
  with \<^verbatim>\<open>self.log\<close>, whatever the debug flag; the function is registered with a fresh
  \<^verbatim>\<open>TimeStatistics(func)\<close>; then \<^verbatim>\<open>self.functions[func_name]['input'] = 0\<close> is
  stored in the entry found under the name, new or old.
\<close>

definition set_input :: "string \<Rightarrow> real \<Rightarrow> (string \<times> entry) list \<Rightarrow> (string \<times> entry) list" where
  "set_input func_name x fs =
     map (\<lambda>(k, e). if k = func_name then (k, e\<lparr>entry_input := Some x\<rparr>) else (k, e)) fs"

definition stopwatch_decorate :: "pojang \<Rightarrow> pyfunc \<Rightarrow> pyerr option \<times> pojang" where
  "stopwatch_decorate pj func =
     (let func_name = get_unique_func_name func in
      case log_msg pj (decorated_msg func_name) of
        (Some e, pj1) \<Rightarrow> (Some e, pj1)
      | (None, pj1) \<Rightarrow>
          (case update_decoration_info pj1 func_name func new_statistics of
             (Some e, pj2) \<Rightarrow> (Some e, pj2)
           | (None, pj2) \<Rightarrow>
               (None, pj2\<lparr>functions_dict := set_input func_name 0 (functions_dict pj2)\<rparr>)))"

text \<open>
  The three ways the code registers a function, as one operation, and a sequence of
  them applied to a registry from left to right. The registry outlives an operation
  that raised, so the sequence goes on from the registry as the operation left it.
\<close>

datatype reg_op =
    Register string pyfunc statistics
  | Trace pyfunc bool
  | Stopwatch pyfunc

fun apply_reg_op :: "pojang \<Rightarrow> reg_op \<Rightarrow> pyerr option \<times> pojang" where
  "apply_reg_op pj (Register func_name func props) = update_decoration_info pj func_name func props"
| "apply_reg_op pj (Trace func has_source) = trace_decorate pj func has_source"
| "apply_reg_op pj (Stopwatch func) = stopwatch_decorate pj func"

definition apply_reg_ops :: "pojang \<Rightarrow> reg_op list \<Rightarrow> pojang" where
  "apply_reg_ops pj ops = foldl (\<lambda>pj' op. snd (apply_reg_op pj' op)) pj ops"

text \<open>How many entries the registry holds under a name.\<close>

definition entries_of :: "pojang \<Rightarrow> string \<Rightarrow> entry list" where
  "entries_of pj func_name = map snd (filter (\<lambda>(k, e). k = func_name) (functions_dict pj))"

text \<open>What an entry is created with: the identity, the callable and the statistics object.\<close>

definition entry_core :: "entry \<Rightarrow> string \<times> pyfunc \<times> statistics" where
  "entry_core e = (entry_name e, entry_func e, entry_props e)"

text \<open>
  \<^verbatim>\<open>Yeezy.register\<close> and \<^verbatim>\<open>Pojang.register\<close>: the caller passes the dictionary. Its
  keys are names and the registered object is a callable, so the test
  \<^verbatim>\<open>func not in function_map\<close> of \<^verbatim>\<open>Yeezy\<close> (a key lookup of the callable) never finds
  it, and the assignment always runs; \<^verbatim>\<open>Pojang\<close> tests \<^verbatim>\<open>func_name\<close>.
\<close>

definition yeezy_register :: "string \<Rightarrow> pyfunc \<Rightarrow> (string \<times> pyfunc) list \<Rightarrow> (string \<times> pyfunc) list" where
  "yeezy_register func_name func function_map = AList.update func_name func function_map"

definition pojang_register :: "string \<Rightarrow> pyfunc \<Rightarrow> (string \<times> pyfunc) list \<Rightarrow> (string \<times> pyfunc) list" where
  "pojang_register func_name func function_map =
     (if func_name \<notin> fst ` set function_map then AList.update func_name func function_map
      else function_map)"

section \<open>Calling a Python function\<close>

text \<open>
  Python binds the positional arguments to the first parameters, then every remaining
  parameter to the keyword argument of its name or else to its default. It raises
  \<^verbatim>\<open>TypeError\<close> for too many positional arguments, for a keyword that names no
  parameter, for a parameter given both ways and for a parameter left without a value.
\<close>

fun bind_keywords :: "(string \<times> pyval option) list \<Rightarrow> kwargs \<Rightarrow> pyerr + (string \<times> pyval) list" where
  "bind_keywords [] kw = Inr []"
| "bind_keywords ((k, d) # ps) kw =
     (case (case map_of kw k of Some v \<Rightarrow> Some v | None \<Rightarrow> d) of
        None \<Rightarrow> Inl TypeError
      | Some v \<Rightarrow> (case bind_keywords ps kw of Inl e \<Rightarrow> Inl e | Inr env \<Rightarrow> Inr ((k, v) # env)))"

definition bind_arguments :: "(string \<times> pyval option) list \<Rightarrow> pyval list \<Rightarrow> kwargs \<Rightarrow> pyerr + (string \<times> pyval) list" where
  "bind_arguments params args kw =
     (if length params < length args then Inl TypeError
      else if \<not> set (map fst kw) \<subseteq> set (map fst params) then Inl TypeError
      else if set (map fst kw) \<inter> set (take (length args) (map fst params)) \<noteq> {} then Inl TypeError
      else (case bind_keywords (drop (length args) params) kw of
              Inl e \<Rightarrow> Inl e
            | Inr env \<Rightarrow> Inr (zip (map fst params) args @ env)))"

text \<open>
  The world a call runs in: the store, and a record of every invocation made (which
  callable, with which positional and keyword arguments), oldest first. The record is
  not part of the program; it is what "the callback was invoked once, with these
  arguments" is read from.
\<close>

record world =
  store :: heap
  calls :: "(nat \<times> pyval list \<times> kwargs) list"

definition call :: "pyfunc \<Rightarrow> pyval list \<Rightarrow> kwargs \<Rightarrow> world \<Rightarrow> (pyerr + pyval) \<times> world" where
  "call f args kw w =
     (let w1 = w\<lparr>calls := calls w @ [(fn_id f, args, kw)]\<rparr> in
      case bind_arguments (fn_params f) args kw of
        Inl e \<Rightarrow> (Inl e, w1)
      | Inr env \<Rightarrow> (case fn_body f env (store w1) of (r, h) \<Rightarrow> (r, w1\<lparr>store := h\<rparr>)))"

text \<open>Python's truth value of an object, as \<^verbatim>\<open>if fire_event:\<close> takes it.\<close>

fun truthy :: "heap \<Rightarrow> pyval \<Rightarrow> bool" where
  "truthy h (Imm INone) = False"
| "truthy h (Imm (IInt n)) = (n \<noteq> 0)"
| "truthy h (Imm (IStr s)) = (s \<noteq> [])"
| "truthy h (Imm IEmpty) = True"
| "truthy h (Imm (ITuple xs)) = (xs \<noteq> [])"
| "truthy h (Ref a) = (h a \<noteq> [])"
| "truthy h Self = True"

section \<open>Default arguments (\<^verbatim>\<open>helper/util.py\<close>)\<close>

text \<open>\<^verbatim>\<open>v.default\<close> of a parameter.\<close>

definition param_default :: "pyval option \<Rightarrow> pyval" where
  "param_default d = (case d of None \<Rightarrow> Imm IEmpty | Some v \<Rightarrow> v)"

text \<open>
  The loop shared by \<^verbatim>\<open>fill_default_kwargs\<close> and \<^verbatim>\<open>get_shallow_default_arg_dict\<close>:
  \<^verbatim>\<open>
  i = 0
  for k, v in parameters.items():
      if i >= arg_count:
          kwargs[k] = v.default
      i += 1
  \<close>
  The assignment is a dictionary store: it replaces the value of a key that is there
  and appends a new key.
\<close>

fun fill_loop :: "nat \<Rightarrow> nat \<Rightarrow> (string \<times> pyval option) list \<Rightarrow> kwargs \<Rightarrow> kwargs" where
  "fill_loop arg_count i [] kw = kw"
| "fill_loop arg_count i ((k, d) # ps) kw =
     fill_loop arg_count (i + 1) ps
       (if arg_count \<le> i then AList.update k (param_default d) kw else kw)"

definition fill_default_kwargs :: "pyfunc \<Rightarrow> pyval list \<Rightarrow> kwargs \<Rightarrow> kwargs" where
  "fill_default_kwargs fn args kw = fill_loop (length args) 0 (fn_params fn) kw"

text \<open>\<^verbatim>\<open>dict(pairs)\<close> and \<^verbatim>\<open>{**a, **b}\<close>.\<close>

definition dict_of :: "(string \<times> pyval) list \<Rightarrow> kwargs" where
  "dict_of pairs = foldl (\<lambda>d (k, v). AList.update k v d) [] pairs"

definition dict_merge :: "kwargs \<Rightarrow> kwargs \<Rightarrow> kwargs" where
  "dict_merge a b = foldl (\<lambda>d (k, v). AList.update k v d) a b"

definition co_varnames :: "pyfunc \<Rightarrow> string list" where
  "co_varnames fn = map fst (fn_params fn) @ fn_locals fn"

text \<open>
  \<^verbatim>\<open>get_shallow_default_arg_dict(fn, args)\<close>: the positional arguments under the first
  \<^verbatim>\<open>co_varnames\<close>, and the default of every parameter from position \<^verbatim>\<open>len(args)\<close> on.
  The keyword arguments of the call are not among its parameters. (Its \<^verbatim>\<open>print(v)\<close>
  writes to standard output only.)
\<close>

definition get_shallow_default_arg_dict :: "pyfunc \<Rightarrow> pyval list \<Rightarrow> kwargs" where
  "get_shallow_default_arg_dict fn args =
     (let arg_count = length args;
          args_names = take arg_count (co_varnames fn);
          new_kwargs = fill_loop arg_count 0 (fn_params fn) []
      in dict_merge (dict_of (zip args_names args)) new_kwargs)"

section \<open>The wrapping policies of \<^verbatim>\<open>Pojang\<close>\<close>

subsection \<open>\<^verbatim>\<open>pure\<close>\<close>

text \<open>
  The callback fired for a changed argument receives the argument name, the value
  before and the value after; it may raise. The default callback, defined when
  \<^verbatim>\<open>event_cb is None\<close>, raises \<^verbatim>\<open>MutatedReferenceError\<close>.
\<close>

type_synonym event_cb = "string \<Rightarrow> dval \<Rightarrow> dval \<Rightarrow> world \<Rightarrow> (pyerr + unit) \<times> world"

definition default_event_cb :: event_cb where
  "default_event_cb argument_name before after w =
     (Inl (MutatedReferenceError argument_name before after), w)"

text \<open>
  \<^verbatim>\<open>
  for key, value in input_data.items():
      if value != original_input[key]:
          before = original_input[key]
          after = input_data[key]
          event_cb(key, before, after)
  \<close>
  \<^verbatim>\<open>input_data\<close> holds the argument objects themselves, so \<^verbatim>\<open>value\<close> is read in the
  store as the call left it; \<^verbatim>\<open>original_input\<close> is the deep copy taken before.
\<close>

fun check_inputs :: "event_cb \<Rightarrow> kwargs \<Rightarrow> (string \<times> dval) list \<Rightarrow> world \<Rightarrow> (pyerr + unit) \<times> world" where
  "check_inputs cb [] original_input w = (Inr (), w)"
| "check_inputs cb ((key, v) # rest) original_input w =
     (case map_of original_input key of
        None \<Rightarrow> (Inl KeyError, w)
      | Some before \<Rightarrow>
          (if deep (store w) v \<noteq> before
           then (case cb key before (deep (store w) v) w of
                   (Inl e, w') \<Rightarrow> (Inl e, w')
                 | (Inr u, w') \<Rightarrow> check_inputs cb rest original_input w')
           else check_inputs cb rest original_input w))"

text \<open>
  The wrapper \<^verbatim>\<open>inner\<close> built by \<^verbatim>\<open>pure(event_cb)(function)\<close>. At decoration time
  \<^verbatim>\<open>add_decorator_rule\<close> runs; a Python function has a \<^verbatim>\<open>__dict__\<close>, so
  \<^verbatim>\<open>util.is_class_instance\<close> holds of it and the empty
  \<^verbatim>\<open>_add_class_decorator_rule\<close> is taken: decoration leaves the registry as it is.
\<close>

definition pure_inner :: "event_cb option \<Rightarrow> pyfunc \<Rightarrow> pyval list \<Rightarrow> kwargs \<Rightarrow> world \<Rightarrow> (pyerr + pyval) \<times> world" where
  "pure_inner event_cb function args kw w =
     (let cb = (case event_cb of None \<Rightarrow> default_event_cb | Some c \<Rightarrow> c);
          input_data = get_shallow_default_arg_dict function args;
          original_input = map (\<lambda>(k, v). (k, deep (store w) v)) input_data
      in case call function args kw w of
           (Inl e, w1) \<Rightarrow> (Inl e, w1)
         | (Inr output, w1) \<Rightarrow>
             (case check_inputs cb input_data original_input w1 of
                (Inl e, w2) \<Rightarrow> (Inl e, w2)
              | (Inr u, w2) \<Rightarrow> (Inr output, w2)))"

text \<open>
  An entry of \<^verbatim>\<open>input_data\<close> whose object compares unequal, in the second store, to its
  value in the first.
\<close>

definition changed :: "heap \<Rightarrow> heap \<Rightarrow> string \<times> pyval \<Rightarrow> bool" where
  "changed h h' kv = (deep h' (snd kv) \<noteq> deep h (snd kv))"

subsection \<open>\<^verbatim>\<open>fire_if\<close>\<close>

text \<open>\<^verbatim>\<open>for event in events_to_fire: event(output, *args, **kwargs)\<close>\<close>

fun fire_events :: "pyfunc list \<Rightarrow> pyval \<Rightarrow> pyval list \<Rightarrow> kwargs \<Rightarrow> world \<Rightarrow> (pyerr + unit) \<times> world" where
  "fire_events [] output args kw w = (Inr (), w)"
| "fire_events (event # events) output args kw w =
     (case call event (output # args) kw w of
        (Inl e, w') \<Rightarrow> (Inl e, w')
      | (Inr r, w') \<Rightarrow> fire_events events output args kw w')"

text \<open>
  The wrapper \<^verbatim>\<open>wrapped\<close> built by \<^verbatim>\<open>fire_if(events_to_fire, predicate)(func)\<close>:
  \<^verbatim>\<open>
  output = func(*args, **kwargs)
  fire_event = predicate(output, self, *args, **kwargs)
  if fire_event:
      for event in events_to_fire:
          event(output, *args, **kwargs)
  return output
  \<close>
\<close>

definition fire_if_wrapped :: "pyfunc list \<Rightarrow> pyfunc \<Rightarrow> pyfunc \<Rightarrow> pyval list \<Rightarrow> kwargs \<Rightarrow> world \<Rightarrow> (pyerr + pyval) \<times> world" where
  "fire_if_wrapped events_to_fire predicate func args kw w =
     (case call func args kw w of
        (Inl e, w1) \<Rightarrow> (Inl e, w1)
      | (Inr output, w1) \<Rightarrow>
          (case call predicate (output # Self # args) kw w1 of
             (Inl e, w2) \<Rightarrow> (Inl e, w2)
           | (Inr fire_event, w2) \<Rightarrow>
               (if truthy (store w2) fire_event
                then (case fire_events events_to_fire output args kw w2 of
                        (Inl e, w3) \<Rightarrow> (Inl e, w3)
                      | (Inr u, w3) \<Rightarrow> (Inr output, w3))
                else (Inr output, w2))))"

text \<open>
  What invoking each callback of a list once, in order, with
  \<^verbatim>\<open>(output, *args, **kwargs)\<close> does to the world: the calls themselves, one after
  the other, each in the world the one before left.
\<close>

definition invoke_in_turn :: "pyfunc list \<Rightarrow> pyval \<Rightarrow> pyval list \<Rightarrow> kwargs \<Rightarrow> world \<Rightarrow> world" where
  "invoke_in_turn events output args kw w =
     foldl (\<lambda>v event. snd (call event (output # args) kw v)) w events"

text \<open>
  The default of the parameter \<^verbatim>\<open>predicate\<close>, \<^verbatim>\<open>lambda x: x\<close>: one parameter without
  a default, returned as it is.
\<close>

definition default_predicate :: pyfunc where
  "default_predicate =
     \<lparr>fn_id = 0, fn_module = ''src.pojang.app'', fn_qualname = ''Pojang.<lambda>'',
      fn_params = [(''x'', None)], fn_locals = [],
      fn_body = (\<lambda>env h. case map_of env ''x'' of
                              Some v \<Rightarrow> (Inr v, h)
                            | None \<Rightarrow> (Inl (OtherError ''NameError''), h))\<rparr>"

subsection \<open>\<^verbatim>\<open>run_before\<close>\<close>

text \<open>
  \<^verbatim>\<open>functions\<close> is one callable or a list of them; \<^verbatim>\<open>util.is_iterable\<close> tells them
  apart and picks the \<^verbatim>\<open>preprocess\<close> that calls the one, or each in turn, with the same
  arguments.
\<close>

datatype callbacks =
    One pyfunc
  | Many "pyfunc list"

fun preprocess_each :: "pyfunc list \<Rightarrow> pyval list \<Rightarrow> kwargs \<Rightarrow> world \<Rightarrow> (pyerr + unit) \<times> world" where
  "preprocess_each [] args kw w = (Inr (), w)"
| "preprocess_each (f # funcs) args kw w =
     (case call f args kw w of
        (Inl e, w') \<Rightarrow> (Inl e, w')
      | (Inr r, w') \<Rightarrow> preprocess_each funcs args kw w')"

fun preprocess :: "callbacks \<Rightarrow> pyval list \<Rightarrow> kwargs \<Rightarrow> world \<Rightarrow> (pyerr + unit) \<times> world" where
  "preprocess (Many funcs) args kw w = preprocess_each funcs args kw w"
| "preprocess (One func) args kw w =
     (case call func args kw w of
        (Inl e, w') \<Rightarrow> (Inl e, w')
      | (Inr r, w') \<Rightarrow> (Inr (), w'))"

text \<open>
  The wrapper \<^verbatim>\<open>inner\<close> built by \<^verbatim>\<open>run_before(functions)(fn)\<close>:
  \<^verbatim>\<open>
  util.fill_default_kwargs(fn, args, kwargs)
  preprocess(functions, *args, **kwargs)
  output = fn(*args, **kwargs)
  return output
  \<close>
  \<^verbatim>\<open>fill_default_kwargs\<close> changes the dictionary \<^verbatim>\<open>kwargs\<close> in place; both later calls
  read the changed dictionary.
\<close>

definition run_before_inner :: "callbacks \<Rightarrow> pyfunc \<Rightarrow> pyval list \<Rightarrow> kwargs \<Rightarrow> world \<Rightarrow> (pyerr + pyval) \<times> world" where
  "run_before_inner funcs fn args kw w =
     (let kw' = fill_default_kwargs fn args kw in
      case preprocess funcs args kw' w of
        (Inl e, w1) \<Rightarrow> (Inl e, w1)
      | (Inr u, w1) \<Rightarrow> call fn args kw' w1)"

subsection \<open>\<^verbatim>\<open>trace\<close>\<close>

text \<open>
  The wrapper built by \<^verbatim>\<open>Pojang.trace(warn_side_effects, truncate_from)(func)\<close> after
  the decoration step \<open>trace_decorate\<close>: its whole body is
  \<^verbatim>\<open>return func(*args, **kwargs)\<close>. The registry is threaded through to show what the
  call leaves of it.
\<close>

definition trace_wrapper :: "pyfunc \<Rightarrow> pyval list \<Rightarrow> kwargs \<Rightarrow> pojang \<times> world \<Rightarrow> (pyerr + pyval) \<times> pojang \<times> world" where
  "trace_wrapper func args kw s =
     (case s of (pj, w) \<Rightarrow> (case call func args kw w of (r, w') \<Rightarrow> (r, pj, w')))"

subsection \<open>\<^verbatim>\<open>stopwatch\<close>\<close>

text \<open>
  The wrapper built by \<^verbatim>\<open>stopwatch\<close> after the decoration step \<open>stopwatch_decorate\<close>.
  \<open>time_start\<close> and \<open>time_end\<close> are the two readings of \<^verbatim>\<open>time.time()\<close>:
  \<^verbatim>\<open>
  time_start = time.time()
  output = func(*args, **kwargs)
  time_elapsed = time.time() - time_start
  self.functions[func_name]['input'] = time_elapsed
  self.functions[func_name]['props'].update(time_elapsed)
  return output
  \<close>
  Durations are real numbers here; the rounding of Python's floats is not modelled.
\<close>

definition record_time :: "string \<Rightarrow> real \<Rightarrow> (string \<times> entry) list \<Rightarrow> (string \<times> entry) list" where
  "record_time func_name time_elapsed fs =
     map (\<lambda>(k, e). if k = func_name
                     then (k, e\<lparr>entry_input := Some time_elapsed,
                                 entry_props := update_statistics (entry_props e) time_elapsed\<rparr>)
                     else (k, e)) fs"

definition stopwatch_wrapper :: "pyfunc \<Rightarrow> pyval list \<Rightarrow> kwargs \<Rightarrow> real \<times> real \<Rightarrow> pojang \<times> world \<Rightarrow> (pyerr + pyval) \<times> pojang \<times> world" where
  "stopwatch_wrapper func args kw clock s =
     (case s of (pj, w) \<Rightarrow>
       (case clock of (time_start, time_end) \<Rightarrow>
         (let func_name = get_unique_func_name func in
          case call func args kw w of
            (Inl e, w') \<Rightarrow> (Inl e, pj, w')
          | (Inr output, w') \<Rightarrow>
              (if func_name \<in> fst ` set (functions_dict pj)
               then (Inr output,
                     pj\<lparr>functions_dict := record_time func_name (time_end - time_start) (functions_dict pj)\<rparr>,
                     w')
               else (Inl KeyError, pj, w')))))"




subsection \<open>\<^verbatim>\<open>profile\<close>\<close>

text \<open>
  The profiler (\<^verbatim>\<open>cProfile.Profile\<close>) is a collaborator outside the repository: it is
  taken as a state with the two operations the wrapper uses, each of which may raise.
  \<^verbatim>\<open>
  self._profiler.enable()
  output = func(*args, **kwargs)
  self._profiler.disable()
  return output
  \<close>
\<close>

record 'p profiler =
  enable :: "'p \<Rightarrow> pyerr + 'p"
  disable :: "'p \<Rightarrow> pyerr + 'p"

definition profile_wrapped :: "'p profiler \<Rightarrow> pyfunc \<Rightarrow> pyval list \<Rightarrow> kwargs \<Rightarrow> 'p \<times> world \<Rightarrow> (pyerr + pyval) \<times> 'p \<times> world" where
  "profile_wrapped prof func args kw s =
     (case s of (p, w) \<Rightarrow>
       (case enable prof p of
          Inl e \<Rightarrow> (Inl e, p, w)
        | Inr p1 \<Rightarrow>
            (case call func args kw w of
               (Inl e, w1) \<Rightarrow> (Inl e, p1, w1)
             | (Inr output, w1) \<Rightarrow>
                 (case disable prof p1 of
                    Inl e \<Rightarrow> (Inl e, p1, w1)
                  | Inr p2 \<Rightarrow> (Inr output, p2, w1)))))"

text \<open>
  A profiler as \<^verbatim>\<open>cProfile\<close> behaves since Python 3.12: the state says whether a
  profiling tool is active in the process, and \<^verbatim>\<open>enable()\<close> raises
  \<^verbatim>\<open>ValueError('Another profiling tool is already active')\<close> when one is.
\<close>

definition exclusive_profiler :: "bool profiler" where
  "exclusive_profiler =
     \<lparr>enable = (\<lambda>active. if active then Inl (ValueError ''Another profiling tool is already active'')
                         else Inr True),
      disable = (\<lambda>active. Inr False)\<rparr>"

subsection \<open>\<^verbatim>\<open>observe\<close>\<close>

text \<open>
  What \<^verbatim>\<open>observe\<close> reads of the decorated object: whether it has a \<^verbatim>\<open>__dict__\<close>
  (\<^verbatim>\<open>util.is_class_instance\<close>), and the (name, value) pairs of
  \<^verbatim>\<open>inspect.getmembers(cls)\<close>. The argument \<^verbatim>\<open>properties\<close> is \<^verbatim>\<open>None\<close>, a list or tuple
  of values, or the class itself when the decorator is written without parentheses.
\<close>

record pyclass =
  has_dict :: bool
  cls_module :: string
  cls_name :: string
  getmembers :: "(string \<times> imm) list"

datatype observe_arg =
    NoProperties
  | Properties "imm list"
  | Decorated pyclass

fun is_str :: "imm \<Rightarrow> bool" where
  "is_str (IStr s) = True"
| "is_str x = False"

text \<open>
  \<^verbatim>\<open>
  for prop in properties:
      if prop not in class_props:
          raise ValueError(f"Property '{prop}' not found in class <{cls_name}>. ...")
      elif not isinstance(prop, str):
          raise ValueError("Properties passed to .observe() should be a string. ...")
      else:
          pass
  \<close>
\<close>

fun check_properties :: "imm list \<Rightarrow> imm list \<Rightarrow> pyerr + unit" where
  "check_properties [] class_props = Inr ()"
| "check_properties (prop # props) class_props =
     (if prop \<notin> set class_props then Inl (ValueError ''Property not found in class'')
      else if \<not> is_str prop then Inl (ValueError ''Properties passed to .observe() should be a string'')
      else check_properties props class_props)"

text \<open>
  \<^verbatim>\<open>observe_class\<close>. \<^verbatim>\<open>class_props\<close> is
  \<^verbatim>\<open>[item for item in inspect.getmembers(cls) if not inspect.ismethod(item)]\<close>: each
  \<^verbatim>\<open>item\<close> is a (name, value) tuple, never a method, so every pair is kept, as a pair.
  (The \<^verbatim>\<open>print\<close> of the members writes to standard output only.)
\<close>

definition observe_class :: "observe_arg \<Rightarrow> pyclass \<Rightarrow> pyerr + unit" where
  "observe_class properties cls =
     (if \<not> has_dict cls then Inl NotClassException
      else (let class_props = map (\<lambda>(n, v). ITuple [IStr n, v]) (getmembers cls) in
            case properties of
              Properties props \<Rightarrow> check_properties props class_props
            | NoProperties \<Rightarrow> Inr ()
            | Decorated c \<Rightarrow> Inr ()))"

text \<open>
  \<^verbatim>\<open>observe(properties)\<close> applied as a class decorator to \<^verbatim>\<open>cls\<close>; with the class itself
  as \<^verbatim>\<open>properties\<close> (no parentheses) \<^verbatim>\<open>observe_class\<close> runs on it at once.
\<close>

definition observe :: "observe_arg \<Rightarrow> pyclass \<Rightarrow> pyerr + unit" where
  "observe properties cls =
     (case properties of
        Decorated c \<Rightarrow> observe_class properties c
      | NoProperties \<Rightarrow> observe_class properties cls
      | Properties props \<Rightarrow> observe_class properties cls)"

section \<open>The stand-alone \<^verbatim>\<open>trace\<close> of \<^verbatim>\<open>experiment/util.py\<close>\<close>

text \<open>
  This decorator keeps its own call count (\<^verbatim>\<open>count[func]\<close>) and writes lines with
  \<^verbatim>\<open>print\<close> or to a file. A line is kept as the data it is formatted from, values
  as they are when the line is built:
  \<^item> \<^verbatim>\<open>f"Debug: {function_name}(k=v, ...) called {count[func]} times."\<close>
  \<^item> \<^verbatim>\<open>f"Calling {function_name}({signature})"\<close>
  \<^item> \<^verbatim>\<open>"args has been modified"\<close> and \<^verbatim>\<open>"kwargs has been modified"\<close>
  \<^item> \<^verbatim>\<open>f"{func.__name__!r} returned {value!r}"\<close>
\<close>

datatype trace_line =
    CallRecord string "(string \<times> dval) list" nat
  | Calling string "dval list" "(string \<times> dval) list"
  | ArgsModified
  | KwargsModified
  | Returned string dval

record tracer =
  trace_count :: nat
  written :: "trace_line list"

definition write_function :: "tracer \<Rightarrow> trace_line \<Rightarrow> tracer" where
  "write_function tr line = tr\<lparr>written := written tr @ [line]\<rparr>"

text \<open>\<^verbatim>\<open>func.__name__\<close>: the last component of the qualified name.\<close>

definition fn_name :: "pyfunc \<Rightarrow> string" where
  "fn_name f = rev (takeWhile (\<lambda>c. c \<noteq> CHR ''.'') (rev (fn_qualname f)))"

text \<open>
  \<^verbatim>\<open>inspect.getfullargspec(func).defaults\<close>: the defaults of the parameters that have
  one, or \<^verbatim>\<open>None\<close> when no parameter has.
\<close>

definition argspec_defaults :: "pyfunc \<Rightarrow> pyval list option" where
  "argspec_defaults f =
     (case List.map_filter snd (fn_params f) of [] \<Rightarrow> None | d # ds \<Rightarrow> Some (d # ds))"

text \<open>
  \<^verbatim>\<open>
  for test in argspecs.args:
      if i < len(args):
          value = args_repr[i]
      elif i >= len(args) and test not in kwargs:
          value = argspecs.defaults[default_index]
          default_index += 1
      else:
          value = kwargs[test]
      function_input_str += f"{test}={value}"
      ...
      i += 1
  \<close>
  Subscripting \<^verbatim>\<open>None\<close> raises \<^verbatim>\<open>TypeError\<close>, an index past the end \<^verbatim>\<open>IndexError\<close>.
\<close>

fun describe_inputs :: "heap \<Rightarrow> pyval list \<Rightarrow> kwargs \<Rightarrow> pyval list option \<Rightarrow> nat \<Rightarrow> nat \<Rightarrow> string list \<Rightarrow> pyerr + (string \<times> dval) list" where
  "describe_inputs h args kw defaults i default_index [] = Inr []"
| "describe_inputs h args kw defaults i default_index (test # names) =
     (if i < length args
      then (case describe_inputs h args kw defaults (i + 1) default_index names of
              Inl e \<Rightarrow> Inl e
            | Inr r \<Rightarrow> Inr ((test, deep h (args ! i)) # r))
      else if test \<notin> fst ` set kw
      then (case defaults of
              None \<Rightarrow> Inl TypeError
            | Some ds \<Rightarrow>
                (if default_index < length ds
                 then (case describe_inputs h args kw defaults (i + 1) (default_index + 1) names of
                         Inl e \<Rightarrow> Inl e
                       | Inr r \<Rightarrow> Inr ((test, deep h (ds ! default_index)) # r))
                 else Inl (OtherError ''IndexError'')))
      else (case map_of kw test of
              None \<Rightarrow> Inl KeyError
            | Some v \<Rightarrow>
                (case describe_inputs h args kw defaults (i + 1) default_index names of
                   Inl e \<Rightarrow> Inl e
                 | Inr r \<Rightarrow> Inr ((test, deep h v) # r))))"

text \<open>
  The wrapper of \<^verbatim>\<open>experiment/util.py\<close>: it counts the call, writes the two lines
  that describe it, deep-copies \<^verbatim>\<open>args\<close> and \<^verbatim>\<open>kwargs\<close>, calls the function, compares
  both with their copies and writes what it finds and the returned value.
\<close>

definition experiment_trace_wrapper :: "pyfunc \<Rightarrow> pyval list \<Rightarrow> kwargs \<Rightarrow> tracer \<times> world \<Rightarrow> (pyerr + pyval) \<times> tracer \<times> world" where
  "experiment_trace_wrapper func args kw s =
     (case s of (tr, w) \<Rightarrow>
       (let function_name = fn_name func;
            tr1 = tr\<lparr>trace_count := trace_count tr + 1\<rparr>
        in case describe_inputs (store w) args kw (argspec_defaults func) 0 0 (map fst (fn_params func)) of
             Inl e \<Rightarrow> (Inl e, tr1, w)
           | Inr inputs \<Rightarrow>
               (let tr2 = write_function tr1 (CallRecord function_name inputs (trace_count tr1));
                    deep_cpy_args = map (deep (store w)) args;
                    deep_cpy_kwargs = map (\<lambda>(k, v). (k, deep (store w) v)) kw;
                    tr3 = write_function tr2 (Calling function_name deep_cpy_args deep_cpy_kwargs)
                in case call func args kw w of
                     (Inl e, w1) \<Rightarrow> (Inl e, tr3, w1)
                   | (Inr v, w1) \<Rightarrow>
                       (let tr4 = (if deep_cpy_args \<noteq> map (deep (store w1)) args
                                   then write_function tr3 ArgsModified else tr3);
                            tr5 = (if deep_cpy_kwargs \<noteq> map (\<lambda>(k, v). (k, deep (store w1) v)) kw
                                   then write_function tr4 KwargsModified else tr4);
                            tr6 = write_function tr5 (Returned function_name (deep (store w1) v))
                        in (Inr v, tr6, w1)))))"

section \<open>Example programs\<close>

text \<open>
  Small Python functions used as concrete inputs. \<open>append_two\<close> is
  \<^verbatim>\<open>def f(a): a.append(2)\<close>, the function of the spec's purity example.
\<close>

definition append_two :: pyfunc where
  "append_two =
     \<lparr>fn_id = 1, fn_module = ''__main__'', fn_qualname = ''f'',
      fn_params = [(''a'', None)], fn_locals = [],
      fn_body = (\<lambda>env h. case map_of env ''a'' of
                              Some (Ref r) \<Rightarrow> (Inr (Imm INone), h(r := h r @ [IInt 2]))
                            | _ \<Rightarrow> (Inl (OtherError ''AttributeError''), h))\<rparr>"

text \<open>
  The function of the \<^verbatim>\<open>__main__\<close> block of \<^verbatim>\<open>pojang/app.py\<close>,
  \<^verbatim>\<open>def input_output_what_how(a, b, c=[]): c.append(10); return c\<close>. The list that
  is the default of \<^verbatim>\<open>c\<close> is one object, made when the function is defined; it
  lives at address 7.
\<close>

definition input_output_what_how :: pyfunc where
  "input_output_what_how =
     \<lparr>fn_id = 9, fn_module = ''__main__'', fn_qualname = ''input_output_what_how'',
      fn_params = [(''a'', None), (''b'', None), (''c'', Some (Ref 7))], fn_locals = [],
      fn_body = (\<lambda>env h. case map_of env ''c'' of
                              Some (Ref r) \<Rightarrow> (Inr (Ref r), h(r := h r @ [IInt 10]))
                            | _ \<Rightarrow> (Inl (OtherError ''AttributeError''), h))\<rparr>"

text \<open>An empty store but for one list object.\<close>

definition one_list :: "addr \<Rightarrow> imm list \<Rightarrow> heap" where
  "one_list a xs = (\<lambda>b. if b = a then xs else [])"

definition new_world :: "heap \<Rightarrow> world" where
  "new_world h = \<lparr>store = h, calls = []\<rparr>"

text \<open>
  The sample of the \<^verbatim>\<open>fire_if\<close> docstring: \<^verbatim>\<open>def do_something(arr): return sum(arr)\<close>,
  with a predicate and an event callback that accept the arguments the wrapper passes:
  \<^verbatim>\<open>lambda output, instance, arr: len(arr) > 5\<close> and
  \<^verbatim>\<open>def cb(output, arr): fired.append(1)\<close>, where \<^verbatim>\<open>fired\<close> is a module-level list,
  at address 1, that starts empty: its length is the number of times \<^verbatim>\<open>cb\<close> has run.
\<close>

fun py_sum :: "imm list \<Rightarrow> int option" where
  "py_sum [] = Some 0"
| "py_sum (IInt n # xs) = map_option (\<lambda>m. n + m) (py_sum xs)"
| "py_sum (x # xs) = None"

definition do_something :: pyfunc where
  "do_something =
     \<lparr>fn_id = 2, fn_module = ''__main__'', fn_qualname = ''do_something'',
      fn_params = [(''arr'', None)], fn_locals = [],
      fn_body = (\<lambda>env h. case map_of env ''arr'' of
                              Some (Ref r) \<Rightarrow>
                                (case py_sum (h r) of
                                   Some n \<Rightarrow> (Inr (Imm (IInt n)), h)
                                 | None \<Rightarrow> (Inl TypeError, h))
                            | _ \<Rightarrow> (Inl TypeError, h))\<rparr>"

definition longer_than_five :: pyfunc where
  "longer_than_five =
     \<lparr>fn_id = 3, fn_module = ''__main__'', fn_qualname = ''<lambda>'',
      fn_params = [(''output'', None), (''instance'', None), (''arr'', None)], fn_locals = [],
      fn_body = (\<lambda>env h. case map_of env ''arr'' of
                              Some (Ref r) \<Rightarrow> (Inr (Imm (IInt (if 5 < length (h r) then 1 else 0))), h)
                            | _ \<Rightarrow> (Inl TypeError, h))\<rparr>"

definition cb :: pyfunc where
  "cb =
     \<lparr>fn_id = 4, fn_module = ''__main__'', fn_qualname = ''cb'',
      fn_params = [(''output'', None), (''arr'', None)], fn_locals = [],
      fn_body = (\<lambda>env h. (Inr (Imm INone), h(1 := h 1 @ [IInt 1])))\<rparr>"

text \<open>
  The predicate as the docstring itself writes it, \<^verbatim>\<open>lambda x, arr: len(arr) > 5\<close>,
  with no parameter for the instance.
\<close>

definition docstring_predicate :: pyfunc where
  "docstring_predicate =
     \<lparr>fn_id = 10, fn_module = ''__main__'', fn_qualname = ''<lambda>'',
      fn_params = [(''x'', None), (''arr'', None)], fn_locals = [],
      fn_body = (\<lambda>env h. case map_of env ''arr'' of
                              Some (Ref r) \<Rightarrow> (Inr (Imm (IInt (if 5 < length (h r) then 1 else 0))), h)
                            | _ \<Rightarrow> (Inl TypeError, h))\<rparr>"

text \<open>
  The docstring's own first definition of the name,
  \<^verbatim>\<open>def do_something(output, instance, arr): print(...)\<close>: another function object of
  the same module and qualified name.
\<close>

definition do_something_event :: pyfunc where
  "do_something_event =
     \<lparr>fn_id = 5, fn_module = ''__main__'', fn_qualname = ''do_something'',
      fn_params = [(''output'', None), (''instance'', None), (''arr'', None)], fn_locals = [],
      fn_body = (\<lambda>env h. (Inr (Imm INone), h))\<rparr>"

text \<open>
  \<^verbatim>\<open>def second(a, b=5): return b\<close> and a callback \<^verbatim>\<open>def show(a, b): pass\<close> to run
  before it.
\<close>

definition second :: pyfunc where
  "second =
     \<lparr>fn_id = 6, fn_module = ''__main__'', fn_qualname = ''second'',
      fn_params = [(''a'', None), (''b'', Some (Imm (IInt 5)))], fn_locals = [],
      fn_body = (\<lambda>env h. case map_of env ''b'' of
                              Some v \<Rightarrow> (Inr v, h)
                            | None \<Rightarrow> (Inl (OtherError ''NameError''), h))\<rparr>"

definition show_args :: pyfunc where
  "show_args =
     \<lparr>fn_id = 7, fn_module = ''__main__'', fn_qualname = ''show'',
      fn_params = [(''a'', None), (''b'', None)], fn_locals = [],
      fn_body = (\<lambda>env h. (Inr (Imm INone), h))\<rparr>"

text \<open>A function whose body raises: \<^verbatim>\<open>def broken(): raise ValueError('broken')\<close>.\<close>

definition broken :: pyfunc where
  "broken =
     \<lparr>fn_id = 8, fn_module = ''__main__'', fn_qualname = ''broken'',
      fn_params = [], fn_locals = [],
      fn_body = (\<lambda>env h. (Inl (ValueError ''broken''), h))\<rparr>"

text \<open>The list arguments of the docstring's two calls, and two timed calls of \<open>do_something\<close>.\<close>

definition six :: "imm list" where
  "six = [IInt 1, IInt 2, IInt 3, IInt 4, IInt 5, IInt 6]"

definition two :: "imm list" where
  "two = [IInt 20, IInt 30]"



text \<open>
  A session that traces \<open>do_something\<close>, times \<open>cb\<close> and then times the second
  function named \<open>do_something\<close>.
\<close>

definition sample_ops :: "reg_op list" where
  "sample_ops = [Trace do_something True, Stopwatch cb, Stopwatch do_something_event]"

text \<open>
  A class with one class attribute, \<^verbatim>\<open>class Test: x = 1\<close>; of its members only the
  attribute is listed, the inherited double-underscore members are left out.
\<close>

definition test_class :: pyclass where
  "test_class =
     \<lparr>has_dict = True, cls_module = ''__main__'', cls_name = ''Test'',
      getmembers = [(''x'', IInt 1)]\<rparr>"

section \<open>Evaluating a call\<close>

text \<open>The equations that compute a call, and the snapshot of its arguments, at a concrete input.\<close>

lemmas call_ev = call_def bind_arguments_def Let_def new_world_def one_list_def

lemmas input_data_ev = get_shallow_default_arg_dict_def co_varnames_def dict_merge_def dict_of_def
  param_default_def

section \<open>Identity resolution: which functions share a key\<close>

lemma dot_split_unique:
  assumes "m1 @ CHR ''.'' # q1 = m2 @ CHR ''.'' # q2"
    and "CHR ''.'' \<notin> set q1" and "CHR ''.'' \<notin> set q2"
  shows "m1 = m2 \<and> q1 = q2"
  using assms
proof (induction m1 arbitrary: m2)
  case Nil
  then show ?case by (cases m2) auto
next
  case (Cons c m1)
  then show ?case by (cases m2) auto
qed

text \<open>
  C8, as the code has it. The key is a function of the module path and the qualified
  name alone: two callables that agree on both get the same key (the same function
  resolved twice; a function and its \<^verbatim>\<open>functools.wraps\<close> wrapper); within one module
  the keys of two functions are equal exactly when their qualified names are; and for
  two functions whose qualified names contain no dot (module-level functions) the
  keys are equal exactly when module and qualified name both are.
\<close>

theorem get_unique_func_name_collisions:
  "(fn_module f = fn_module g \<and> fn_qualname f = fn_qualname g \<longrightarrow>
      get_unique_func_name f = get_unique_func_name g) \<and>
   (fn_module f = fn_module g \<longrightarrow>
      (get_unique_func_name f = get_unique_func_name g \<longleftrightarrow> fn_qualname f = fn_qualname g)) \<and>
   (CHR ''.'' \<notin> set (fn_qualname f) \<and> CHR ''.'' \<notin> set (fn_qualname g) \<longrightarrow>
      (get_unique_func_name f = get_unique_func_name g \<longleftrightarrow>
         fn_module f = fn_module g \<and> fn_qualname f = fn_qualname g))"
proof -
  have same: "fn_module f = fn_module g \<and> fn_qualname f = fn_qualname g \<longrightarrow>
      get_unique_func_name f = get_unique_func_name g"
    by (simp add: get_unique_func_name_def)
  have in_module: "fn_module f = fn_module g \<longrightarrow>
      (get_unique_func_name f = get_unique_func_name g \<longleftrightarrow> fn_qualname f = fn_qualname g)"
    by (simp add: get_unique_func_name_def)
  have top_level: "CHR ''.'' \<notin> set (fn_qualname f) \<and> CHR ''.'' \<notin> set (fn_qualname g) \<longrightarrow>
      (get_unique_func_name f = get_unique_func_name g \<longleftrightarrow>
         fn_module f = fn_module g \<and> fn_qualname f = fn_qualname g)"
  proof (intro impI iffI)
    assume dots: "CHR ''.'' \<notin> set (fn_qualname f) \<and> CHR ''.'' \<notin> set (fn_qualname g)"
      and eq: "get_unique_func_name f = get_unique_func_name g"
    from eq have "fn_module f @ CHR ''.'' # fn_qualname f = fn_module g @ CHR ''.'' # fn_qualname g"
      by (simp add: get_unique_func_name_def)
    with dots show "fn_module f = fn_module g \<and> fn_qualname f = fn_qualname g"
      using dot_split_unique by blast
  next
    assume "fn_module f = fn_module g \<and> fn_qualname f = fn_qualname g"
    then show "get_unique_func_name f = get_unique_func_name g"
      by (simp add: get_unique_func_name_def)
  qed
  from same in_module top_level show ?thesis by blast
qed

text \<open>
  The theorem at \<open>do_something\<close> and \<open>cb\<close> (one module, two names: two keys) and at the
  two functions named \<open>do_something\<close> (one key).
\<close>

theorem get_unique_func_name_collisions_witness:
  "fn_module do_something = fn_module cb \<and>
   CHR ''.'' \<notin> set (fn_qualname do_something) \<and> CHR ''.'' \<notin> set (fn_qualname cb) \<and>
   fn_qualname do_something \<noteq> fn_qualname cb \<and>
   get_unique_func_name do_something \<noteq> get_unique_func_name cb \<and>
   fn_module do_something = fn_module do_something_event \<and>
   fn_qualname do_something = fn_qualname do_something_event \<and>
   get_unique_func_name do_something = get_unique_func_name do_something_event"
  using get_unique_func_name_collisions [of do_something cb]
    get_unique_func_name_collisions [of do_something do_something_event]
  by (simp add: do_something_def cb_def do_something_event_def)

text \<open>
  C8 as stated fails: the two functions that the \<^verbatim>\<open>fire_if\<close> docstring defines under
  the name \<^verbatim>\<open>do_something\<close> are distinct function objects with one key.
\<close>

theorem get_unique_func_name_counterexample:
  "do_something \<noteq> do_something_event \<and>
   get_unique_func_name do_something = get_unique_func_name do_something_event"
  by (simp add: do_something_def do_something_event_def get_unique_func_name_def)

section \<open>The registry holds one entry per identity\<close>

lemma set_input_keys: "map fst (set_input n x fs) = map fst fs"
  by (induction fs) (auto simp: set_input_def)

lemma functions_dict_log_msg [simp]:
  "functions_dict (snd (log_msg pj msg)) = functions_dict pj"
  by (simp add: log_msg_def)

lemma functions_dict_log_debug [simp]:
  "functions_dict (snd (log_debug pj msg)) = functions_dict pj"
  by (simp add: log_debug_def)

text \<open>
  Whether it raises or not, \<^verbatim>\<open>_update_decoration_info\<close> leaves the entries as they
  are for a registered name and appends one entry for a new name.
\<close>

lemma functions_dict_update_decoration_info:
  "functions_dict (snd (update_decoration_info pj n f p)) =
     (if n \<in> fst ` set (functions_dict pj) then functions_dict pj
      else functions_dict pj @
             [(n, \<lparr>entry_name = n, entry_func = f, entry_props = p, entry_input = None\<rparr>)])"
  by (simp add: update_decoration_info_def)

text \<open>The entries an operation leaves, whether it raises or not.\<close>

lemma functions_dict_trace_decorate:
  "functions_dict (snd (trace_decorate pj f hs)) = functions_dict pj \<or>
   functions_dict (snd (trace_decorate pj f hs)) =
     functions_dict (snd (update_decoration_info (snd (log_debug pj
        (decorated_msg (get_unique_func_name f))))
        (get_unique_func_name f) f new_statistics))"
proof -
  let ?msg = "decorated_msg (get_unique_func_name f)"
  obtain e1 pj1 where l: "log_debug pj ?msg = (e1, pj1)"
    by (cases "log_debug pj ?msg")
  then have d1: "functions_dict pj1 = functions_dict pj"
    using functions_dict_log_debug [of pj ?msg] by simp
  obtain e2 pj2 where u: "update_decoration_info pj1 (get_unique_func_name f) f new_statistics = (e2, pj2)"
    by (cases "update_decoration_info pj1 (get_unique_func_name f) f new_statistics")
  show ?thesis
    by (cases e1; cases e2) (simp_all add: trace_decorate_def Let_def l u d1)
qed

lemma functions_dict_stopwatch_decorate:
  "functions_dict (snd (stopwatch_decorate pj f)) = functions_dict pj \<or>
   functions_dict (snd (stopwatch_decorate pj f)) =
     functions_dict (snd (update_decoration_info (snd (log_msg pj
        (decorated_msg (get_unique_func_name f))))
        (get_unique_func_name f) f new_statistics)) \<or>
   functions_dict (snd (stopwatch_decorate pj f)) =
     set_input (get_unique_func_name f) 0
       (functions_dict (snd (update_decoration_info (snd (log_msg pj
          (decorated_msg (get_unique_func_name f))))
          (get_unique_func_name f) f new_statistics)))"
proof -
  let ?msg = "decorated_msg (get_unique_func_name f)"
  obtain e1 pj1 where l: "log_msg pj ?msg = (e1, pj1)"
    by (cases "log_msg pj ?msg")
  then have d1: "functions_dict pj1 = functions_dict pj"
    using functions_dict_log_msg [of pj ?msg] by simp
  obtain e2 pj2 where u: "update_decoration_info pj1 (get_unique_func_name f) f new_statistics = (e2, pj2)"
    by (cases "update_decoration_info pj1 (get_unique_func_name f) f new_statistics")
  show ?thesis
    by (cases e1; cases e2) (simp_all add: stopwatch_decorate_def Let_def l u d1)
qed

lemma update_decoration_info_distinct:
  "distinct (map fst (functions_dict pj)) \<Longrightarrow>
   distinct (map fst (functions_dict (snd (update_decoration_info pj n f p))))"
  by (simp add: functions_dict_update_decoration_info)

lemma apply_reg_op_distinct:
  assumes "distinct (map fst (functions_dict pj))"
  shows "distinct (map fst (functions_dict (snd (apply_reg_op pj op))))"
proof (cases op)
  case (Register n f p)
  with assms show ?thesis by (simp add: update_decoration_info_distinct)
next
  case (Trace f hs)
  have "distinct (map fst (functions_dict (snd (update_decoration_info (snd (log_debug pj
        (decorated_msg (get_unique_func_name f))))
        (get_unique_func_name f) f new_statistics))))"
    using assms by (intro update_decoration_info_distinct) simp
  with assms functions_dict_trace_decorate [of pj f hs] Trace show ?thesis by auto
next
  case (Stopwatch f)
  have "distinct (map fst (functions_dict (snd (update_decoration_info (snd (log_msg pj
        (decorated_msg (get_unique_func_name f))))
        (get_unique_func_name f) f new_statistics))))"
    using assms by (intro update_decoration_info_distinct) simp
  with assms functions_dict_stopwatch_decorate [of pj f] Stopwatch show ?thesis
    by (auto simp: set_input_keys)
qed

lemma apply_reg_ops_distinct:
  "distinct (map fst (functions_dict pj)) \<Longrightarrow>
   distinct (map fst (functions_dict (apply_reg_ops pj ops)))"
  unfolding apply_reg_ops_def
  by (induction ops arbitrary: pj) (simp_all add: apply_reg_op_distinct)

lemma unregistered_no_entry:
  "n \<notin> fst ` set fs \<Longrightarrow> filter (\<lambda>(k, e). k = n) fs = []"
  by (induction fs) auto

lemma distinct_keys_entries:
  "distinct (map fst fs) \<Longrightarrow> length (filter (\<lambda>(k, e). k = n) fs) \<le> 1"
  by (induction fs) (auto simp: unregistered_no_entry)

lemma registered_has_entry:
  "n \<in> fst ` set fs \<Longrightarrow> 1 \<le> length (filter (\<lambda>(k, e). k = n) fs)"
  by (induction fs) auto

lemma update_decoration_info_registers:
  "n \<in> fst ` set (functions_dict (snd (update_decoration_info pj n f p)))"
  by (auto simp: functions_dict_update_decoration_info)

lemma entries_core_dict:
  "functions_dict pj' = functions_dict pj \<Longrightarrow>
   map entry_core (entries_of pj' n) = map entry_core (entries_of pj n)"
  by (simp add: entries_of_def)

lemma entries_core_update:
  "n \<in> fst ` set (functions_dict pj) \<Longrightarrow>
   map entry_core (entries_of (snd (update_decoration_info pj m f p)) n) =
   map entry_core (entries_of pj n)"
  by (auto simp: functions_dict_update_decoration_info entries_of_def)

lemma entries_core_set_input:
  "map entry_core (map snd (filter (\<lambda>(k, e). k = n) (set_input m x fs))) =
   map entry_core (map snd (filter (\<lambda>(k, e). k = n) fs))"
proof (induction fs)
  case Nil
  show ?case by (simp add: set_input_def)
next
  case (Cons a fs)
  obtain k e where a: "a = (k, e)" by (cases a)
  from Cons show ?case
    by (auto simp: set_input_def a entry_core_def)
qed

lemma entries_core_op:
  assumes "n \<in> fst ` set (functions_dict pj)"
  shows "map entry_core (entries_of (snd (apply_reg_op pj op)) n) = map entry_core (entries_of pj n)"
proof (cases op)
  case (Register m f p)
  with assms show ?thesis by (simp add: entries_core_update)
next
  case (Trace f hs)
  let ?pj1 = "snd (log_debug pj (decorated_msg (get_unique_func_name f)))"
  have "map entry_core (entries_of (snd (update_decoration_info ?pj1 (get_unique_func_name f) f
          new_statistics)) n) = map entry_core (entries_of ?pj1 n)"
    using assms by (intro entries_core_update) simp
  also have "\<dots> = map entry_core (entries_of pj n)"
    by (simp add: entries_of_def)
  finally show ?thesis
    using functions_dict_trace_decorate [of pj f hs] Trace
    by (auto simp: entries_of_def)
next
  case (Stopwatch f)
  let ?pj1 = "snd (log_msg pj (decorated_msg (get_unique_func_name f)))"
  let ?pj2 = "snd (update_decoration_info ?pj1 (get_unique_func_name f) f new_statistics)"
  have "map entry_core (entries_of ?pj2 n) = map entry_core (entries_of ?pj1 n)"
    using assms by (intro entries_core_update) simp
  also have "\<dots> = map entry_core (entries_of pj n)"
    by (simp add: entries_of_def)
  finally have two: "map entry_core (entries_of ?pj2 n) = map entry_core (entries_of pj n)" .
  from functions_dict_stopwatch_decorate [of pj f]
  consider "functions_dict (snd (stopwatch_decorate pj f)) = functions_dict pj"
    | "functions_dict (snd (stopwatch_decorate pj f)) = functions_dict ?pj2"
    | "functions_dict (snd (stopwatch_decorate pj f)) =
         set_input (get_unique_func_name f) 0 (functions_dict ?pj2)"
    by blast
  then have "map entry_core (entries_of (snd (stopwatch_decorate pj f)) n) =
      map entry_core (entries_of pj n)"
  proof cases
    case 1
    then show ?thesis by (simp add: entries_of_def)
  next
    case 2
    with two show ?thesis by (simp add: entries_of_def)
  next
    case 3
    with two entries_core_set_input [of n "get_unique_func_name f" 0 "functions_dict ?pj2"]
    show ?thesis by (simp add: entries_of_def)
  qed
  with Stopwatch show ?thesis by simp
qed

text \<open>
  C1, as the code has it. Let \<open>pj\<close> be the registry after any sequence of registrations
  and wraps (\<^verbatim>\<open>_update_decoration_info\<close>, \<^verbatim>\<open>trace\<close>, \<^verbatim>\<open>stopwatch\<close>) on a new instance,
  whether or not some of them raised. Whatever is done next, no identity has two
  entries, and after registering \<open>func_name\<close> it has exactly one. If \<open>func_name\<close> is
  registered already, registering it again leaves the dictionary of entries as it was,
  and a further wrap keeps the identity, the callable and the statistics object of its
  entry. On an instance whose logger is \<^verbatim>\<open>print\<close>, registering raises nothing, and
  the duplicate is written to the log exactly when the instance is in debug mode
  (\<^verbatim>\<open>log_debug\<close>).
\<close>

theorem registry_one_entry_per_identity:
  assumes pj: "pj = apply_reg_ops (new_pojang dbg path) ops"
  shows "length (entries_of (snd (apply_reg_op pj op)) func_name) \<le> 1 \<and>
   length (entries_of (snd (update_decoration_info pj func_name func props)) func_name) = 1 \<and>
   (func_name \<in> fst ` set (functions_dict pj) \<longrightarrow>
      functions_dict (snd (update_decoration_info pj func_name func props)) = functions_dict pj \<and>
      map entry_core (entries_of (snd (apply_reg_op pj op)) func_name) =
        map entry_core (entries_of pj func_name)) \<and>
   (uses_print pj \<longrightarrow>
      fst (update_decoration_info pj func_name func props) = None \<and>
      (func_name \<in> fst ` set (functions_dict pj) \<longrightarrow>
         log_lines (snd (update_decoration_info pj func_name func props)) =
           log_lines pj @ (if debug pj then [''DEBUG: '' @ duplicate_msg func_name] else [])))"
proof -
  have "distinct (map fst (functions_dict (new_pojang dbg path)))"
    by (simp add: new_pojang_def)
  then have dpj: "distinct (map fst (functions_dict pj))"
    unfolding pj by (rule apply_reg_ops_distinct)
  have any: "length (entries_of (snd (apply_reg_op pj op)) func_name) \<le> 1"
    using distinct_keys_entries [OF apply_reg_op_distinct [OF dpj], of func_name op]
    by (simp add: entries_of_def)
  have one: "length (entries_of (snd (update_decoration_info pj func_name func props)) func_name) = 1"
    using distinct_keys_entries [OF update_decoration_info_distinct [OF dpj], of func_name func_name func props]
      registered_has_entry [OF update_decoration_info_registers [of func_name pj func props]]
    by (simp add: entries_of_def)
  have dup: "func_name \<in> fst ` set (functions_dict pj) \<longrightarrow>
      functions_dict (snd (update_decoration_info pj func_name func props)) = functions_dict pj \<and>
      map entry_core (entries_of (snd (apply_reg_op pj op)) func_name) =
        map entry_core (entries_of pj func_name)"
    by (simp add: functions_dict_update_decoration_info entries_core_op)
  have printing: "uses_print pj \<longrightarrow>
      fst (update_decoration_info pj func_name func props) = None \<and>
      (func_name \<in> fst ` set (functions_dict pj) \<longrightarrow>
         log_lines (snd (update_decoration_info pj func_name func props)) =
           log_lines pj @ (if debug pj then [''DEBUG: '' @ duplicate_msg func_name] else []))"
    by (simp add: update_decoration_info_def log_debug_def log_msg_def)
  from any one dup printing show ?thesis by blast
qed

text \<open>The registry of the sample session, in debug mode and printing its log, computed.\<close>

lemma sample_registry:
  "apply_reg_ops (new_pojang True None) sample_ops =
     \<lparr>functions_dict =
        [(''__main__.do_something'', \<lparr>entry_name = ''__main__.do_something'', entry_func = do_something,
            entry_props = new_statistics, entry_input = Some 0\<rparr>),
         (''__main__.cb'', \<lparr>entry_name = ''__main__.cb'', entry_func = cb,
            entry_props = new_statistics, entry_input = Some 0\<rparr>)],
      debug = True,
      log_path = None,
      log_lines = [''DEBUG: Decorated function with unique id: __main__.do_something'',
                   ''Decorated function with unique id: __main__.cb'',
                   ''Decorated function with unique id: __main__.do_something'',
                   ''DEBUG: Found duplicate decorator with identity: __main__.do_something'']\<rparr>"
  by (simp add: apply_reg_ops_def sample_ops_def new_pojang_def trace_decorate_def
      stopwatch_decorate_def update_decoration_info_def log_debug_def log_msg_def uses_print_def
      set_input_def decorated_msg_def duplicate_msg_def
      get_unique_func_name_def do_something_def cb_def do_something_event_def Let_def)

theorem registry_one_entry_per_identity_witness:
  "uses_print (apply_reg_ops (new_pojang True None) sample_ops) \<and>
   ''__main__.do_something'' \<in> fst ` set (functions_dict (apply_reg_ops (new_pojang True None) sample_ops)) \<and>
   length (entries_of (snd (apply_reg_op (apply_reg_ops (new_pojang True None) sample_ops)
      (Stopwatch do_something))) ''__main__.do_something'') \<le> 1 \<and>
   update_decoration_info (apply_reg_ops (new_pojang True None) sample_ops)
      ''__main__.do_something'' cb new_statistics =
     (None, (apply_reg_ops (new_pojang True None) sample_ops)
        \<lparr>log_lines := log_lines (apply_reg_ops (new_pojang True None) sample_ops) @
           [''DEBUG: Found duplicate decorator with identity: __main__.do_something'']\<rparr>)"
proof -
  let ?pj = "apply_reg_ops (new_pojang True None) sample_ops"
  have prt: "uses_print ?pj"
    by (simp add: sample_registry uses_print_def)
  have reg: "''__main__.do_something'' \<in> fst ` set (functions_dict ?pj)"
    by (simp add: sample_registry)
  have dbg: "debug ?pj"
    by (simp add: sample_registry)
  note inst = registry_one_entry_per_identity [of ?pj True None sample_ops
      "Stopwatch do_something" "''__main__.do_something''" cb new_statistics, OF refl]
  from inst have le: "length (entries_of (snd (apply_reg_op ?pj (Stopwatch do_something)))
      ''__main__.do_something'') \<le> 1"
    by blast
  have "update_decoration_info ?pj ''__main__.do_something'' cb new_statistics =
     (None, ?pj\<lparr>log_lines := log_lines ?pj @
           [''DEBUG: Found duplicate decorator with identity: __main__.do_something'']\<rparr>)"
    using reg dbg prt
    by (simp add: update_decoration_info_def log_debug_def log_msg_def duplicate_msg_def)
  with prt reg le show ?thesis by blast
qed

text \<open>
  C1 as stated fails in two places. An instance built with the default
  \<^verbatim>\<open>debug=False\<close> registers \<open>cb\<close> twice and its log stays empty: the duplicate is not
  reported. And wrapping \<open>do_something\<close> with \<^verbatim>\<open>stopwatch\<close> a second time, after a
  timed call has put 2 seconds into the input slot of its entry, sets the slot back
  to 0: the existing entry is not left untouched.
\<close>

theorem duplicate_registration_counterexample:
  "''__main__.cb'' \<in> fst ` set (functions_dict
      (snd (update_decoration_info (new_pojang False None) ''__main__.cb'' cb new_statistics))) \<and>
   update_decoration_info
      (snd (update_decoration_info (new_pojang False None) ''__main__.cb'' cb new_statistics))
      ''__main__.cb'' cb new_statistics =
     (None, snd (update_decoration_info (new_pojang False None) ''__main__.cb'' cb new_statistics)) \<and>
   log_lines (snd (update_decoration_info (new_pojang False None) ''__main__.cb'' cb new_statistics)) = [] \<and>
   map entry_input (entries_of
      (fst (snd (stopwatch_wrapper do_something [Ref 0] [] (10, 12)
         (snd (stopwatch_decorate (new_pojang False None) do_something), new_world (one_list 0 two)))))
      ''__main__.do_something'') = [Some 2] \<and>
   map entry_input (entries_of
      (snd (stopwatch_decorate
         (fst (snd (stopwatch_wrapper do_something [Ref 0] [] (10, 12)
            (snd (stopwatch_decorate (new_pojang False None) do_something), new_world (one_list 0 two)))))
         do_something))
      ''__main__.do_something'') = [Some 0]"
  by (simp add: update_decoration_info_def new_pojang_def log_debug_def log_msg_def uses_print_def
      stopwatch_decorate_def stopwatch_wrapper_def set_input_def record_time_def entries_of_def
      decorated_msg_def duplicate_msg_def get_unique_func_name_def call_ev do_something_def two_def)

text \<open>
  With a log file the picture is different, because the file writer itself raises: in
  debug mode a duplicate registration raises \<^verbatim>\<open>TypeError\<close> (the entries stay as they
  are), and \<^verbatim>\<open>stopwatch\<close> raises before it registers anything.
\<close>

lemma file_logger_raises:
  "update_decoration_info
      (snd (update_decoration_info (new_pojang True (Some ''app.log'')) ''__main__.cb'' cb new_statistics))
      ''__main__.cb'' cb new_statistics =
     (Some TypeError,
      snd (update_decoration_info (new_pojang True (Some ''app.log'')) ''__main__.cb'' cb new_statistics)) \<and>
   stopwatch_decorate (new_pojang False (Some ''app.log'')) cb =
     (Some TypeError, new_pojang False (Some ''app.log''))"
  by (simp add: update_decoration_info_def new_pojang_def log_debug_def log_msg_def uses_print_def
      stopwatch_decorate_def)

text \<open>
  When the decorating code has no source text, \<^verbatim>\<open>trace\<close> raises after it has
  registered the function.
\<close>

lemma trace_without_source_raises:
  "fst (trace_decorate (new_pojang False None) cb False) = Some TypeError \<and>
   map fst (functions_dict (snd (trace_decorate (new_pojang False None) cb False))) = [''__main__.cb'']"
  by (simp add: trace_decorate_def update_decoration_info_def new_pojang_def log_debug_def
      get_unique_func_name_def cb_def Let_def)

text \<open>
  \<^verbatim>\<open>Yeezy.register\<close> is a different matter: registering a second callable under a
  name replaces the first, where \<^verbatim>\<open>Pojang.register\<close> keeps it.
\<close>

lemma yeezy_register_replaces:
  "yeezy_register ''__main__.do_something'' do_something_event
     (yeezy_register ''__main__.do_something'' do_something []) =
     [(''__main__.do_something'', do_something_event)] \<and>
   pojang_register ''__main__.do_something'' do_something_event
     (pojang_register ''__main__.do_something'' do_something []) =
     [(''__main__.do_something'', do_something)]"
  by (simp add: yeezy_register_def pojang_register_def)

section \<open>\<^verbatim>\<open>pure\<close>: which mutations are seen\<close>

lemma distinct_dict_merge:
  "distinct (map fst a) \<Longrightarrow> distinct (map fst (dict_merge a b))"
  unfolding dict_merge_def
  by (induction b arbitrary: a) (auto simp: AList.distinct_update)

lemma distinct_dict_of: "distinct (map fst (dict_of pairs))"
  using distinct_dict_merge [of "[]" pairs] by (simp add: dict_of_def dict_merge_def)

lemma distinct_input_data:
  "distinct (map fst (get_shallow_default_arg_dict fn args))"
  by (simp add: get_shallow_default_arg_dict_def Let_def distinct_dict_merge distinct_dict_of)

lemma changed_pair: "changed h h' (k, v) \<longleftrightarrow> deep h' v \<noteq> deep h v"
  by (simp add: changed_def)

text \<open>
  With the default callback the loop over \<^verbatim>\<open>input_data\<close> stops at the first entry whose
  object has changed and raises for it.
\<close>

lemma check_inputs_default:
  assumes "\<And>k v. (k, v) \<in> set input_data \<Longrightarrow> map_of original_input k = Some (deep h v)"
  shows "check_inputs default_event_cb input_data original_input w =
     (case find (changed h (store w)) input_data of
        None \<Rightarrow> (Inr (), w)
      | Some (k, v) \<Rightarrow> (Inl (MutatedReferenceError k (deep h v) (deep (store w) v)), w))"
  using assms
proof (induction input_data)
  case Nil
  show ?case by simp
next
  case (Cons a input_data)
  obtain k v where a: "a = (k, v)" by (cases a)
  have orig: "map_of original_input k = Some (deep h v)"
    using Cons.prems [of k v] by (simp add: a)
  have rest: "check_inputs default_event_cb input_data original_input w =
     (case find (changed h (store w)) input_data of
        None \<Rightarrow> (Inr (), w)
      | Some (k, v) \<Rightarrow> (Inl (MutatedReferenceError k (deep h v) (deep (store w) v)), w))"
    using Cons.IH Cons.prems by simp
  have step: "check_inputs default_event_cb (a # input_data) original_input w =
      (if deep (store w) v \<noteq> deep h v
       then (Inl (MutatedReferenceError k (deep h v) (deep (store w) v)), w)
       else check_inputs default_event_cb input_data original_input w)"
    by (simp add: a orig default_event_cb_def)
  show ?case
    unfolding step rest by (simp add: a changed_pair)
qed

lemma map_of_snapshot:
  assumes "distinct (map fst xs)" and "(k, v) \<in> set xs"
  shows "map_of (map (\<lambda>(k, v). (k, deep h v)) xs) k = Some (deep h v)"
  using assms by (induction xs) (auto simp: image_iff)

text \<open>
  What a function wrapped by \<^verbatim>\<open>pure()\<close> does, in full: an exception of the function
  passes through; otherwise the call raises \<^verbatim>\<open>MutatedReferenceError\<close> for the first
  entry of \<^verbatim>\<open>get_shallow_default_arg_dict(function, args)\<close> whose object changed,
  with its name and its values before and after, and returns the function's output
  when no entry changed. The entries are the positional arguments and the defaults of
  the parameters after them.
\<close>

lemma pure_default_callback:
  "pure_inner None function args kw w =
     (case call function args kw w of
        (Inl e, w1) \<Rightarrow> (Inl e, w1)
      | (Inr output, w1) \<Rightarrow>
          (case find (changed (store w) (store w1)) (get_shallow_default_arg_dict function args) of
             None \<Rightarrow> (Inr output, w1)
           | Some (k, v) \<Rightarrow>
               (Inl (MutatedReferenceError k (deep (store w) v) (deep (store w1) v)), w1)))"
proof (cases "call function args kw w")
  case (Pair r w1)
  show ?thesis
  proof (cases r)
    case (Inl e)
    with Pair show ?thesis by (simp add: pure_inner_def Let_def)
  next
    case (Inr out)
    have chk: "check_inputs default_event_cb (get_shallow_default_arg_dict function args)
        (map (\<lambda>(k, v). (k, deep (store w) v)) (get_shallow_default_arg_dict function args)) w1 =
      (case find (changed (store w) (store w1)) (get_shallow_default_arg_dict function args) of
        None \<Rightarrow> (Inr (), w1)
      | Some (k, v) \<Rightarrow> (Inl (MutatedReferenceError k (deep (store w) v) (deep (store w1) v)), w1))"
      by (rule check_inputs_default) (simp add: map_of_snapshot distinct_input_data)
    show ?thesis
      by (simp add: pure_inner_def Let_def Pair Inr chk split: option.split)
  qed
qed

text \<open>
  The spec's example with the list passed by position, \<^verbatim>\<open>f([1])\<close>: the error names
  \<^verbatim>\<open>a\<close>, before \<^verbatim>\<open>[1]\<close>, after \<^verbatim>\<open>[1, 2]\<close>. A changed default is seen as well.
\<close>

lemma pure_reports_positional_argument:
  "pure_inner None append_two [Ref 0] [] (new_world (one_list 0 [IInt 1])) =
     (Inl (MutatedReferenceError ''a'' (DList [IInt 1]) (DList [IInt 1, IInt 2])),
      \<lparr>store = (one_list 0 [IInt 1])(0 := [IInt 1, IInt 2]),
       calls = [(fn_id append_two, [Ref 0], [])]\<rparr>)"
  by (simp add: pure_inner_def input_data_ev default_event_cb_def call_ev append_two_def)

lemma pure_reports_default_argument:
  "pure_inner None input_output_what_how [Imm (IInt 10), Imm (IInt 20)] [] (new_world (\<lambda>a. [])) =
     (Inl (MutatedReferenceError ''c'' (DList []) (DList [IInt 10])),
      \<lparr>store = (\<lambda>a. [])(7 := [IInt 10]),
       calls = [(fn_id input_output_what_how, [Imm (IInt 10), Imm (IInt 20)], [])]\<rparr>)"
  by (simp add: pure_inner_def input_data_ev default_event_cb_def call_ev input_output_what_how_def)

text \<open>
  C2 at the spec's own example, \<^verbatim>\<open>f(a=[1])\<close> with the list passed by keyword and
  \<^verbatim>\<open>f\<close> appending 2 to it. The claim asks for \<^verbatim>\<open>MutatedArgumentError\<close> naming \<^verbatim>\<open>a\<close>
  with before \<^verbatim>\<open>[1]\<close> and after \<^verbatim>\<open>[1, 2]\<close>. The wrapper snapshots
  \<^verbatim>\<open>{'a': Parameter.empty}\<close>, finds it unchanged and returns the function's output,
  although the list now holds \<^verbatim>\<open>[1, 2]\<close>.
\<close>

theorem pure_misses_keyword_argument:
  "get_shallow_default_arg_dict append_two [] = [(''a'', Imm IEmpty)] \<and>
   pure_inner None append_two [] [(''a'', Ref 0)] (new_world (one_list 0 [IInt 1])) =
     (Inr (Imm INone),
      \<lparr>store = (one_list 0 [IInt 1])(0 := [IInt 1, IInt 2]),
       calls = [(fn_id append_two, [], [(''a'', Ref 0)])]\<rparr>)"
  by (simp add: pure_inner_def input_data_ev default_event_cb_def call_ev append_two_def)

section \<open>\<^verbatim>\<open>trace\<close>: what a traced call writes\<close>

text \<open>
  C3 at a call that changes its argument: \<^verbatim>\<open>f\<close> is decorated with
  \<^verbatim>\<open>Pojang.trace()\<close>, from a source file, on an instance in debug mode that prints
  its log, and called as \<^verbatim>\<open>f([1])\<close>. The
  claim asks for a snapshot, a comparison, a side-effect warning and a call record.
  The wrapper returns the function's output and leaves the registry, its log
  included, exactly as decoration left it: the only line is the one written when the
  function was decorated, and the changed argument is reported nowhere.
\<close>

theorem trace_reports_nothing:
  "fst (trace_decorate (new_pojang True None) append_two True) = None \<and>
   trace_wrapper append_two [Ref 0] []
     (snd (trace_decorate (new_pojang True None) append_two True), new_world (one_list 0 [IInt 1])) =
     (Inr (Imm INone),
      snd (trace_decorate (new_pojang True None) append_two True),
      \<lparr>store = (one_list 0 [IInt 1])(0 := [IInt 1, IInt 2]),
       calls = [(fn_id append_two, [Ref 0], [])]\<rparr>) \<and>
   log_lines (snd (trace_decorate (new_pojang True None) append_two True)) =
     [''DEBUG: Decorated function with unique id: __main__.f'']"
  by (simp add: trace_wrapper_def call_ev append_two_def trace_decorate_def log_debug_def log_msg_def
      uses_print_def update_decoration_info_def new_pojang_def decorated_msg_def
      get_unique_func_name_def)

text \<open>No call through the wrapper of \<^verbatim>\<open>Pojang.trace\<close> changes the registry.\<close>

lemma trace_wrapper_keeps_registry:
  "trace_wrapper func args kw (pj, w) = (r, pj', w') \<Longrightarrow> pj' = pj \<and> call func args kw w = (r, w')"
  by (auto simp: trace_wrapper_def split: prod.splits)

text \<open>
  The stand-alone decorator of \<^verbatim>\<open>experiment/util.py\<close> on the same call: it counts
  the call, writes the call record and reports the changed argument.
\<close>

lemma experiment_trace_reports_mutation:
  "experiment_trace_wrapper append_two [Ref 0] []
     (\<lparr>trace_count = 0, written = []\<rparr>, new_world (one_list 0 [IInt 1])) =
   (Inr (Imm INone),
    \<lparr>trace_count = 1,
     written = [CallRecord ''f'' [(''a'', DList [IInt 1])] 1,
                Calling ''f'' [DList [IInt 1]] [],
                ArgsModified,
                Returned ''f'' (DImm INone)]\<rparr>,
    \<lparr>store = (one_list 0 [IInt 1])(0 := [IInt 1, IInt 2]), calls = [(fn_id append_two, [Ref 0], [])]\<rparr>)"
  by (simp add: experiment_trace_wrapper_def write_function_def fn_name_def argspec_defaults_def
      List.map_filter_def call_ev append_two_def)

text \<open>
  Its copies are of \<^verbatim>\<open>args\<close> and \<^verbatim>\<open>kwargs\<close> as passed: the default it prints in the
  call record is not among them, and a call that changes the default list is not
  reported.
\<close>

lemma experiment_trace_misses_default:
  "experiment_trace_wrapper input_output_what_how [Imm (IInt 10), Imm (IInt 20)] []
     (\<lparr>trace_count = 0, written = []\<rparr>, new_world (\<lambda>a. [])) =
   (Inr (Ref 7),
    \<lparr>trace_count = 1,
     written = [CallRecord ''input_output_what_how''
                  [(''a'', DImm (IInt 10)), (''b'', DImm (IInt 20)), (''c'', DList [])] 1,
                Calling ''input_output_what_how'' [DImm (IInt 10), DImm (IInt 20)] [],
                Returned ''input_output_what_how'' (DList [IInt 10])]\<rparr>,
    \<lparr>store = (\<lambda>a. [])(7 := [IInt 10]),
     calls = [(fn_id input_output_what_how, [Imm (IInt 10), Imm (IInt 20)], [])]\<rparr>)"
  by (simp add: experiment_trace_wrapper_def write_function_def fn_name_def argspec_defaults_def
      List.map_filter_def call_ev input_output_what_how_def)

section \<open>\<^verbatim>\<open>observe\<close>: which names are accepted\<close>

text \<open>
  C4 at a class that has the attribute: \<^verbatim>\<open>observe(['x'])\<close> applied to
  \<^verbatim>\<open>class Test: x = 1\<close>. The claim has each name validated to be a real attribute of
  the class, so \<^verbatim>\<open>'x'\<close> passes. The code looks the string up among the (name, value)
  pairs of \<^verbatim>\<open>inspect.getmembers\<close> and raises \<^verbatim>\<open>ValueError\<close>, "not found".
\<close>

theorem observe_rejects_real_attribute:
  "(''x'', IInt 1) \<in> set (getmembers test_class) \<and>
   observe (Properties [IStr ''x'']) test_class = Inl (ValueError ''Property not found in class'')"
  by (simp add: observe_def observe_class_def test_class_def)

text \<open>
  A string is never one of the pairs, so every list that starts with a name is
  rejected at that name; and whatever a non-empty list starts with, a class is rejected
  with \<^verbatim>\<open>ValueError\<close>.
\<close>

lemma str_never_member: "IStr s \<notin> set (map (\<lambda>(n, v). ITuple [IStr n, v]) ms)"
  by (induction ms) auto

lemma observe_rejects_every_name:
  "has_dict cls \<Longrightarrow>
   observe (Properties (IStr s # props)) cls = Inl (ValueError ''Property not found in class'')"
  using str_never_member [of s "getmembers cls"]
  by (simp add: observe_def observe_class_def Let_def)

lemma observe_always_rejects:
  "has_dict cls \<Longrightarrow> props \<noteq> [] \<Longrightarrow> \<exists>msg. observe (Properties props) cls = Inl (ValueError msg)"
  by (cases props) (auto simp: observe_def observe_class_def Let_def)

section \<open>\<^verbatim>\<open>fire_if\<close>: when the callbacks run\<close>

lemma calls_call:
  "call f args kw w = (r, w') \<Longrightarrow> calls w' = calls w @ [(fn_id f, args, kw)]"
  by (auto simp: call_def Let_def split: sum.splits prod.splits)

lemma invoke_in_turn_Nil [simp]: "invoke_in_turn [] out args kw w = w"
  by (simp add: invoke_in_turn_def)

lemma invoke_in_turn_Cons [simp]:
  "invoke_in_turn (event # events) out args kw w =
     invoke_in_turn events out args kw (snd (call event (out # args) kw w))"
  by (simp add: invoke_in_turn_def)

lemma invoke_in_turn_append:
  "invoke_in_turn (xs @ ys) out args kw w =
     invoke_in_turn ys out args kw (invoke_in_turn xs out args kw w)"
  by (simp add: invoke_in_turn_def)

text \<open>Each callback of the list is on record once, in order, with \<^verbatim>\<open>(output, *args, **kwargs)\<close>.\<close>

lemma calls_invoke_in_turn:
  "calls (invoke_in_turn events out args kw w) =
     calls w @ map (\<lambda>event. (fn_id event, out # args, kw)) events"
proof (induction events arbitrary: w)
  case Nil
  show ?case by simp
next
  case (Cons event events)
  have "calls (snd (call event (out # args) kw w)) = calls w @ [(fn_id event, out # args, kw)]"
    using calls_call [of event "out # args" kw w] by (cases "call event (out # args) kw w") simp
  with Cons.IH [of "snd (call event (out # args) kw w)"] show ?case by simp
qed

text \<open>
  The loop over \<^verbatim>\<open>events_to_fire\<close> against the calls themselves: when every callback
  returns in the world its predecessors left, the loop ends in the world that invoking
  each of them once, in order, produces.
\<close>

lemma fire_events_all_return:
  assumes "\<forall>i<length events. \<exists>r v.
      call (events ! i) (out # args) kw (invoke_in_turn (take i events) out args kw w) = (Inr r, v)"
  shows "fire_events events out args kw w = (Inr (), invoke_in_turn events out args kw w)"
  using assms
proof (induction events arbitrary: w)
  case Nil
  show ?case by simp
next
  case (Cons event events)
  from Cons.prems have "\<exists>r v. call event (out # args) kw w = (Inr r, v)"
    by (auto dest: spec [of _ 0])
  then obtain r v where c: "call event (out # args) kw w = (Inr r, v)" by blast
  have "\<forall>i<length events. \<exists>r' v'.
      call (events ! i) (out # args) kw (invoke_in_turn (take i events) out args kw v) = (Inr r', v')"
  proof (intro allI impI)
    fix i assume "i < length events"
    with Cons.prems have "\<exists>r' v'. call ((event # events) ! Suc i) (out # args) kw
        (invoke_in_turn (take (Suc i) (event # events)) out args kw w) = (Inr r', v')"
      by (auto dest: spec [of _ "Suc i"])
    then show "\<exists>r' v'. call (events ! i) (out # args) kw
        (invoke_in_turn (take i events) out args kw v) = (Inr r', v')"
      by (simp add: c)
  qed
  from Cons.IH [OF this] show ?case by (simp add: c)
qed

text \<open>When a callback raises, the loop stops there: the exception leaves it.\<close>

lemma fire_events_first_raise:
  assumes "\<forall>i<length pre. \<exists>r v.
      call (pre ! i) (out # args) kw (invoke_in_turn (take i pre) out args kw w) = (Inr r, v)"
    and "call event (out # args) kw (invoke_in_turn pre out args kw w) = (Inl e, v)"
  shows "fire_events (pre @ event # post) out args kw w = (Inl e, v)"
  using assms
proof (induction pre arbitrary: w)
  case Nil
  then show ?case by simp
next
  case (Cons a pre)
  from Cons.prems(1) have "\<exists>r v. call a (out # args) kw w = (Inr r, v)"
    by (auto dest: spec [of _ 0])
  then obtain r u where c: "call a (out # args) kw w = (Inr r, u)" by blast
  have rest: "\<forall>i<length pre. \<exists>r' v'.
      call (pre ! i) (out # args) kw (invoke_in_turn (take i pre) out args kw u) = (Inr r', v')"
  proof (intro allI impI)
    fix i assume "i < length pre"
    with Cons.prems(1) have "\<exists>r' v'. call ((a # pre) ! Suc i) (out # args) kw
        (invoke_in_turn (take (Suc i) (a # pre)) out args kw w) = (Inr r', v')"
      by (auto dest: spec [of _ "Suc i"])
    then show "\<exists>r' v'. call (pre ! i) (out # args) kw
        (invoke_in_turn (take i pre) out args kw u) = (Inr r', v')"
      by (simp add: c)
  qed
  from Cons.prems(2) have "call event (out # args) kw (invoke_in_turn pre out args kw u) = (Inl e, v)"
    by (simp add: c)
  from Cons.IH [OF rest this] show ?case by (simp add: c)
qed

text \<open>
  C5, as the code has it. The wrapped call first calls \<open>func\<close>; an exception of \<open>func\<close>
  leaves the call. When \<open>func\<close> returns \<open>out\<close>, the predicate is invoked with
  \<^verbatim>\<open>(output, self, *args, **kwargs)\<close>; an exception of the predicate leaves the call.
  When the predicate returns \<open>fire_event\<close>, exactly those two invocations have been made,
  and:
  \<^item> if \<open>fire_event\<close> is false, the call returns \<open>out\<close> there and then, no callback
    invoked;
  \<^item> if it is true and every callback returns, the call returns \<open>out\<close> in the world that
    invoking each subscribed callback once, in order, with
    \<^verbatim>\<open>(output, *args, **kwargs)\<close> produces;
  \<^item> if it is true and a callback raises after those before it returned, that exception
    leaves the call and no later callback is invoked.
\<close>

theorem fire_if_fires_when_predicate_holds:
  "(call func args kw w = (Inl e, w1) \<longrightarrow>
      fire_if_wrapped events_to_fire predicate func args kw w = (Inl e, w1)) \<and>
   (call func args kw w = (Inr out, w1) \<and>
    call predicate (out # Self # args) kw w1 = (Inl e, w2) \<longrightarrow>
      fire_if_wrapped events_to_fire predicate func args kw w = (Inl e, w2)) \<and>
   (call func args kw w = (Inr out, w1) \<and>
    call predicate (out # Self # args) kw w1 = (Inr fire_event, w2) \<longrightarrow>
      calls w2 = calls w @ [(fn_id func, args, kw), (fn_id predicate, out # Self # args, kw)] \<and>
      (\<not> truthy (store w2) fire_event \<longrightarrow>
         fire_if_wrapped events_to_fire predicate func args kw w = (Inr out, w2)) \<and>
      (truthy (store w2) fire_event \<and>
       (\<forall>i<length events_to_fire. \<exists>r v.
          call (events_to_fire ! i) (out # args) kw
            (invoke_in_turn (take i events_to_fire) out args kw w2) = (Inr r, v)) \<longrightarrow>
         fire_if_wrapped events_to_fire predicate func args kw w =
           (Inr out, invoke_in_turn events_to_fire out args kw w2) \<and>
         calls (invoke_in_turn events_to_fire out args kw w2) =
           calls w2 @ map (\<lambda>event. (fn_id event, out # args, kw)) events_to_fire) \<and>
      (truthy (store w2) fire_event \<and> events_to_fire = pre @ event # post \<and>
       (\<forall>i<length pre. \<exists>r v.
          call (pre ! i) (out # args) kw (invoke_in_turn (take i pre) out args kw w2) = (Inr r, v)) \<and>
       call event (out # args) kw (invoke_in_turn pre out args kw w2) = (Inl e, w3) \<longrightarrow>
         fire_if_wrapped events_to_fire predicate func args kw w = (Inl e, w3)))"
proof -
  have func_raises: "call func args kw w = (Inl e, w1) \<longrightarrow>
      fire_if_wrapped events_to_fire predicate func args kw w = (Inl e, w1)"
    by (simp add: fire_if_wrapped_def)
  have predicate_raises: "call func args kw w = (Inr out, w1) \<and>
      call predicate (out # Self # args) kw w1 = (Inl e, w2) \<longrightarrow>
      fire_if_wrapped events_to_fire predicate func args kw w = (Inl e, w2)"
    by (simp add: fire_if_wrapped_def)
  have returns: "calls w2 = calls w @ [(fn_id func, args, kw), (fn_id predicate, out # Self # args, kw)] \<and>
      (\<not> truthy (store w2) fire_event \<longrightarrow>
         fire_if_wrapped events_to_fire predicate func args kw w = (Inr out, w2)) \<and>
      (truthy (store w2) fire_event \<and>
       (\<forall>i<length events_to_fire. \<exists>r v.
          call (events_to_fire ! i) (out # args) kw
            (invoke_in_turn (take i events_to_fire) out args kw w2) = (Inr r, v)) \<longrightarrow>
         fire_if_wrapped events_to_fire predicate func args kw w =
           (Inr out, invoke_in_turn events_to_fire out args kw w2) \<and>
         calls (invoke_in_turn events_to_fire out args kw w2) =
           calls w2 @ map (\<lambda>event. (fn_id event, out # args, kw)) events_to_fire) \<and>
      (truthy (store w2) fire_event \<and> events_to_fire = pre @ event # post \<and>
       (\<forall>i<length pre. \<exists>r v.
          call (pre ! i) (out # args) kw (invoke_in_turn (take i pre) out args kw w2) = (Inr r, v)) \<and>
       call event (out # args) kw (invoke_in_turn pre out args kw w2) = (Inl e, w3) \<longrightarrow>
         fire_if_wrapped events_to_fire predicate func args kw w = (Inl e, w3))"
    if f: "call func args kw w = (Inr out, w1)"
      and p: "call predicate (out # Self # args) kw w1 = (Inr fire_event, w2)"
  proof -
    have c2: "calls w2 = calls w @ [(fn_id func, args, kw), (fn_id predicate, out # Self # args, kw)]"
      using calls_call [OF f] calls_call [OF p] by simp
    have no: "\<not> truthy (store w2) fire_event \<longrightarrow>
        fire_if_wrapped events_to_fire predicate func args kw w = (Inr out, w2)"
      by (simp add: fire_if_wrapped_def f p)
    have yes: "truthy (store w2) fire_event \<and>
       (\<forall>i<length events_to_fire. \<exists>r v.
          call (events_to_fire ! i) (out # args) kw
            (invoke_in_turn (take i events_to_fire) out args kw w2) = (Inr r, v)) \<longrightarrow>
         fire_if_wrapped events_to_fire predicate func args kw w =
           (Inr out, invoke_in_turn events_to_fire out args kw w2) \<and>
         calls (invoke_in_turn events_to_fire out args kw w2) =
           calls w2 @ map (\<lambda>event. (fn_id event, out # args, kw)) events_to_fire"
      using fire_events_all_return [of events_to_fire out args kw w2]
      by (simp add: fire_if_wrapped_def f p calls_invoke_in_turn)
    have raise: "truthy (store w2) fire_event \<and> events_to_fire = pre @ event # post \<and>
       (\<forall>i<length pre. \<exists>r v.
          call (pre ! i) (out # args) kw (invoke_in_turn (take i pre) out args kw w2) = (Inr r, v)) \<and>
       call event (out # args) kw (invoke_in_turn pre out args kw w2) = (Inl e, w3) \<longrightarrow>
         fire_if_wrapped events_to_fire predicate func args kw w = (Inl e, w3)"
      using fire_events_first_raise [of pre out args kw w2 event e w3 post]
      by (auto simp: fire_if_wrapped_def f p)
    from c2 no yes raise show ?thesis by blast
  qed
  from func_raises predicate_raises returns show ?thesis by blast
qed

text \<open>
  The spec's instance: \<^verbatim>\<open>do_something\<close> wrapped with the predicate
  \<^verbatim>\<open>len(arr) > 5\<close> and the callback \<open>cb\<close>, called on a list of six elements and on
  a list of two. \<open>cb\<close> appends to the list at address 1 each time it runs: after the
  first call that list has one element, after the second it is empty.
\<close>

lemma six_func:
  "call do_something [Ref 0] [] (new_world (one_list 0 six)) =
     (Inr (Imm (IInt 21)), \<lparr>store = one_list 0 six, calls = [(2, [Ref 0], [])]\<rparr>)"
  by (simp add: call_ev do_something_def six_def)

lemma six_predicate:
  "call longer_than_five [Imm (IInt 21), Self, Ref 0] []
       \<lparr>store = one_list 0 six, calls = [(2, [Ref 0], [])]\<rparr> =
     (Inr (Imm (IInt 1)),
      \<lparr>store = one_list 0 six,
       calls = [(2, [Ref 0], []), (3, [Imm (IInt 21), Self, Ref 0], [])]\<rparr>)"
  by (simp add: call_ev longer_than_five_def six_def)

lemma six_callback:
  "call cb [Imm (IInt 21), Ref 0] []
       \<lparr>store = one_list 0 six,
        calls = [(2, [Ref 0], []), (3, [Imm (IInt 21), Self, Ref 0], [])]\<rparr> =
     (Inr (Imm INone),
      \<lparr>store = (one_list 0 six)(1 := [IInt 1]),
       calls = [(2, [Ref 0], []), (3, [Imm (IInt 21), Self, Ref 0], []),
                (4, [Imm (IInt 21), Ref 0], [])]\<rparr>)"
  by (simp add: call_ev cb_def six_def)

lemma two_func:
  "call do_something [Ref 0] [] (new_world (one_list 0 two)) =
     (Inr (Imm (IInt 50)), \<lparr>store = one_list 0 two, calls = [(2, [Ref 0], [])]\<rparr>)"
  by (simp add: call_ev do_something_def two_def)

lemma two_predicate:
  "call longer_than_five [Imm (IInt 50), Self, Ref 0] []
       \<lparr>store = one_list 0 two, calls = [(2, [Ref 0], [])]\<rparr> =
     (Inr (Imm (IInt 0)),
      \<lparr>store = one_list 0 two,
       calls = [(2, [Ref 0], []), (3, [Imm (IInt 50), Self, Ref 0], [])]\<rparr>)"
  by (simp add: call_ev longer_than_five_def two_def)

theorem fire_if_fires_when_predicate_holds_witness:
  "fire_if_wrapped [cb] longer_than_five do_something [Ref 0] [] (new_world (one_list 0 six)) =
     (Inr (Imm (IInt 21)),
      \<lparr>store = (one_list 0 six)(1 := [IInt 1]),
       calls = [(fn_id do_something, [Ref 0], []),
                (fn_id longer_than_five, [Imm (IInt 21), Self, Ref 0], []),
                (fn_id cb, [Imm (IInt 21), Ref 0], [])]\<rparr>) \<and>
   fire_if_wrapped [cb] longer_than_five do_something [Ref 0] [] (new_world (one_list 0 two)) =
     (Inr (Imm (IInt 50)),
      \<lparr>store = one_list 0 two,
       calls = [(fn_id do_something, [Ref 0], []),
                (fn_id longer_than_five, [Imm (IInt 50), Self, Ref 0], [])]\<rparr>)"
proof -
  let ?w2 = "\<lparr>store = one_list 0 six,
      calls = [(2, [Ref 0], []), (3, [Imm (IInt 21), Self, Ref 0], [])]\<rparr>"
  have returns: "\<forall>i<length [cb]. \<exists>r v.
      call ([cb] ! i) (Imm (IInt 21) # [Ref 0]) []
        (invoke_in_turn (take i [cb]) (Imm (IInt 21)) [Ref 0] [] ?w2) = (Inr r, v)"
    by (simp add: six_callback)
  have fires: "truthy (store ?w2) (Imm (IInt 1))"
    by simp
  from fire_if_fires_when_predicate_holds [of do_something "[Ref 0]" "[]"
      "new_world (one_list 0 six)" TypeError "\<lparr>store = one_list 0 six, calls = [(2, [Ref 0], [])]\<rparr>"
      "[cb]" longer_than_five "Imm (IInt 21)" ?w2 "Imm (IInt 1)"]
    six_func six_predicate returns fires
  have "fire_if_wrapped [cb] longer_than_five do_something [Ref 0] [] (new_world (one_list 0 six)) =
      (Inr (Imm (IInt 21)), invoke_in_turn [cb] (Imm (IInt 21)) [Ref 0] [] ?w2)"
    by blast
  then have first: "fire_if_wrapped [cb] longer_than_five do_something [Ref 0] []
      (new_world (one_list 0 six)) =
     (Inr (Imm (IInt 21)),
      \<lparr>store = (one_list 0 six)(1 := [IInt 1]),
       calls = [(fn_id do_something, [Ref 0], []),
                (fn_id longer_than_five, [Imm (IInt 21), Self, Ref 0], []),
                (fn_id cb, [Imm (IInt 21), Ref 0], [])]\<rparr>)"
    by (simp add: six_callback) (simp add: do_something_def longer_than_five_def cb_def)
  have quiet: "\<not> truthy (store \<lparr>store = one_list 0 two,
      calls = [(2, [Ref 0], []), (3, [Imm (IInt 50), Self, Ref 0], [])]\<rparr>) (Imm (IInt 0))"
    by simp
  from fire_if_fires_when_predicate_holds [of do_something "[Ref 0]" "[]"
      "new_world (one_list 0 two)" TypeError "\<lparr>store = one_list 0 two, calls = [(2, [Ref 0], [])]\<rparr>"
      "[cb]" longer_than_five "Imm (IInt 50)"
      "\<lparr>store = one_list 0 two, calls = [(2, [Ref 0], []), (3, [Imm (IInt 50), Self, Ref 0], [])]\<rparr>"
      "Imm (IInt 0)"]
    two_func two_predicate quiet
  have "fire_if_wrapped [cb] longer_than_five do_something [Ref 0] [] (new_world (one_list 0 two)) =
      (Inr (Imm (IInt 50)),
       \<lparr>store = one_list 0 two, calls = [(2, [Ref 0], []), (3, [Imm (IInt 50), Self, Ref 0], [])]\<rparr>)"
    by blast
  then have second: "fire_if_wrapped [cb] longer_than_five do_something [Ref 0] []
      (new_world (one_list 0 two)) =
     (Inr (Imm (IInt 50)),
      \<lparr>store = one_list 0 two,
       calls = [(fn_id do_something, [Ref 0], []),
                (fn_id longer_than_five, [Imm (IInt 50), Self, Ref 0], [])]\<rparr>)"
    by (simp add: do_something_def longer_than_five_def)
  from first second show ?thesis by blast
qed

text \<open>
  C5 as stated fails where the predicate does not return. The predicate of the
  docstring's own sample, \<^verbatim>\<open>lambda x, arr: len(arr) > 5\<close>, is called with the output,
  the instance and the list: the call on the six-element list raises \<^verbatim>\<open>TypeError\<close>
  instead of returning the output 21, and \<open>cb\<close> has not run.
\<close>

theorem fire_if_predicate_error_counterexample:
  "fst (call do_something [Ref 0] [] (new_world (one_list 0 six))) = Inr (Imm (IInt 21)) \<and>
   fire_if_wrapped [cb] docstring_predicate do_something [Ref 0] [] (new_world (one_list 0 six)) =
     (Inl TypeError,
      \<lparr>store = one_list 0 six,
       calls = [(fn_id do_something, [Ref 0], []),
                (fn_id docstring_predicate, [Imm (IInt 21), Self, Ref 0], [])]\<rparr>)"
  by (simp add: fire_if_wrapped_def call_ev do_something_def docstring_predicate_def six_def)

text \<open>
  C10, as the code has it. With the predicate left at its default \<^verbatim>\<open>lambda x: x\<close>,
  no call of the wrapped function returns; and every call in which the function itself
  returns raises \<^verbatim>\<open>TypeError\<close>, at the invocation of the predicate with the output,
  the instance and the call's arguments, before any callback.
\<close>

theorem fire_if_default_predicate_raises:
  "(\<forall>out' w'. fire_if_wrapped events_to_fire default_predicate func args kw w \<noteq> (Inr out', w')) \<and>
   (call func args kw w = (Inr out, w1) \<longrightarrow>
      fire_if_wrapped events_to_fire default_predicate func args kw w =
        (Inl TypeError, w1\<lparr>calls := calls w1 @ [(fn_id default_predicate, out # Self # args, kw)]\<rparr>))"
proof -
  have pred: "call default_predicate (x # Self # args) kw v =
      (Inl TypeError, v\<lparr>calls := calls v @ [(fn_id default_predicate, x # Self # args, kw)]\<rparr>)" for x v
    by (simp add: call_def bind_arguments_def default_predicate_def)
  have never: "fire_if_wrapped events_to_fire default_predicate func args kw w \<noteq> (Inr out', w')" for out' w'
    by (auto simp: fire_if_wrapped_def pred split: prod.splits sum.splits)
  have raises: "call func args kw w = (Inr out, w1) \<longrightarrow>
      fire_if_wrapped events_to_fire default_predicate func args kw w =
        (Inl TypeError, w1\<lparr>calls := calls w1 @ [(fn_id default_predicate, out # Self # args, kw)]\<rparr>)"
    by (simp add: fire_if_wrapped_def pred)
  from never raises show ?thesis by blast
qed

theorem fire_if_default_predicate_raises_witness:
  "call do_something [Ref 0] [] (new_world (one_list 0 six)) =
     (Inr (Imm (IInt 21)), \<lparr>store = one_list 0 six, calls = [(2, [Ref 0], [])]\<rparr>) \<and>
   fire_if_wrapped [cb] default_predicate do_something [Ref 0] [] (new_world (one_list 0 six)) =
     (Inl TypeError,
      \<lparr>store = one_list 0 six,
       calls = [(fn_id do_something, [Ref 0], []),
                (fn_id default_predicate, [Imm (IInt 21), Self, Ref 0], [])]\<rparr>)"
  using fire_if_default_predicate_raises [of "[cb]" do_something "[Ref 0]" "[]"
      "new_world (one_list 0 six)" "Imm (IInt 21)"
      "\<lparr>store = one_list 0 six, calls = [(2, [Ref 0], [])]\<rparr>"]
    six_func
  by (simp add: do_something_def default_predicate_def)

text \<open>
  C10 as stated fails for a function whose own body raises:
  \<^verbatim>\<open>def broken(): raise ValueError('broken')\<close> wrapped with the default predicate
  raises \<^verbatim>\<open>ValueError\<close>, not \<^verbatim>\<open>TypeError\<close>; the predicate is not reached.
\<close>

theorem fire_if_default_predicate_counterexample:
  "fire_if_wrapped [cb] default_predicate broken [] [] (new_world (\<lambda>a. [])) =
     (Inl (ValueError ''broken''), \<lparr>store = (\<lambda>a. []), calls = [(fn_id broken, [], [])]\<rparr>) \<and>
   ValueError ''broken'' \<noteq> TypeError"
  by (simp add: fire_if_wrapped_def call_ev broken_def)

section \<open>\<^verbatim>\<open>stopwatch\<close>: what N calls leave in the entry\<close>













section \<open>\<^verbatim>\<open>run_before\<close>: the arguments the callback and the function receive\<close>

lemma fill_loop_other:
  "k \<notin> fst ` set ps \<Longrightarrow> map_of (fill_loop n i ps kw) k = map_of kw k"
  by (induction ps arbitrary: i kw) (auto simp: AList.update_conv')

lemma fill_loop_overwrites:
  assumes "distinct (map fst ps)" and "j < length ps" and "n \<le> i + j"
  shows "map_of (fill_loop n i ps kw) (fst (ps ! j)) = Some (param_default (snd (ps ! j)))"
  using assms
proof (induction ps arbitrary: i j kw)
  case Nil
  then show ?case by simp
next
  case (Cons a ps)
  obtain k d where a: "a = (k, d)" by (cases a)
  show ?case
  proof (cases j)
    case 0
    with Cons.prems a show ?thesis
      by (simp add: fill_loop_other AList.update_conv')
  next
    case (Suc j')
    with Cons.prems have "map_of (fill_loop n (i + 1) ps kw') (fst (ps ! j')) =
        Some (param_default (snd (ps ! j')))" for kw'
      by (intro Cons.IH) auto
    with Suc a show ?thesis by simp
  qed
qed

text \<open>
  After \<^verbatim>\<open>fill_default_kwargs\<close> every parameter that was not passed by position is
  bound, in \<^verbatim>\<open>kwargs\<close>, to its default (to \<^verbatim>\<open>Parameter.empty\<close> if it has none),
  whatever the caller passed for it by keyword.
\<close>

lemma fill_default_kwargs_overwrites:
  assumes "distinct (map fst (fn_params fn))"
    and "length args \<le> j" and "j < length (fn_params fn)"
  shows "map_of (fill_default_kwargs fn args kw) (fst (fn_params fn ! j)) =
         Some (param_default (snd (fn_params fn ! j)))"
  unfolding fill_default_kwargs_def
  using fill_loop_overwrites [OF assms(1) assms(3), of "length args" 0 kw] assms(2) by simp

text \<open>
  C7 at a call that passes a keyword argument: \<^verbatim>\<open>def second(a, b=5): return b\<close>
  wrapped by \<^verbatim>\<open>run_before(show)\<close> and called as \<^verbatim>\<open>second(1, b=7)\<close>. The claim fills
  in defaults for the parameters the caller did not supply and returns the function's
  output, which for this call is 7. The code stores the default 5 over the supplied
  \<^verbatim>\<open>b=7\<close>: the callback and the function are both invoked with \<^verbatim>\<open>b=5\<close> and the
  call returns 5.
\<close>

theorem run_before_overwrites_keyword:
  "run_before_inner (One show_args) second [Imm (IInt 1)] [(''b'', Imm (IInt 7))] (new_world (\<lambda>a. [])) =
     (Inr (Imm (IInt 5)),
      \<lparr>store = (\<lambda>a. []),
       calls = [(fn_id show_args, [Imm (IInt 1)], [(''b'', Imm (IInt 5))]),
                (fn_id second, [Imm (IInt 1)], [(''b'', Imm (IInt 5))])]\<rparr>) \<and>
   fst (call second [Imm (IInt 1)] [(''b'', Imm (IInt 7))] (new_world (\<lambda>a. []))) = Inr (Imm (IInt 7))"
  by (simp add: run_before_inner_def fill_default_kwargs_def param_default_def call_ev
      second_def show_args_def)

text \<open>
  Without keyword arguments the wrapper does what the claim says: \<^verbatim>\<open>second(1)\<close> runs
  the callback and then the function, both with \<^verbatim>\<open>a=1\<close> by position and the default
  \<^verbatim>\<open>b=5\<close>, and returns the function's output.
\<close>

lemma run_before_fills_default:
  "run_before_inner (Many [show_args, show_args]) second [Imm (IInt 1)] [] (new_world (\<lambda>a. [])) =
     (Inr (Imm (IInt 5)),
      \<lparr>store = (\<lambda>a. []),
       calls = [(fn_id show_args, [Imm (IInt 1)], [(''b'', Imm (IInt 5))]),
                (fn_id show_args, [Imm (IInt 1)], [(''b'', Imm (IInt 5))]),
                (fn_id second, [Imm (IInt 1)], [(''b'', Imm (IInt 5))])]\<rparr>)"
  by (simp add: run_before_inner_def fill_default_kwargs_def param_default_def call_ev
      second_def show_args_def)

section \<open>\<^verbatim>\<open>profile\<close> and \<^verbatim>\<open>stopwatch\<close>: the result of the wrapped call\<close>

text \<open>
  C9, as the code has it. Neither wrapper catches anything. A profiled call returns
  exactly the function's result when \<^verbatim>\<open>enable()\<close>, the function and \<^verbatim>\<open>disable()\<close>
  all return; when \<^verbatim>\<open>enable()\<close> raises, that exception leaves the wrapped call and
  the function is not run. A timed call of a registered function returns exactly the
  function's result when the function returns.
\<close>

theorem profile_and_stopwatch_results:
  "(enable prof p = Inr p1 \<and> call func args kw w = (Inr out, w1) \<and> disable prof p1 = Inr p2 \<longrightarrow>
      profile_wrapped prof func args kw (p, w) = (Inr out, p2, w1)) \<and>
   (enable prof p = Inl e \<longrightarrow> profile_wrapped prof func args kw (p, w) = (Inl e, p, w)) \<and>
   (get_unique_func_name func \<in> fst ` set (functions_dict pj) \<and> call func args kw w = (Inr out, w1) \<longrightarrow>
      fst (stopwatch_wrapper func args kw clock (pj, w)) = Inr out)"
  by (cases clock) (simp add: profile_wrapped_def stopwatch_wrapper_def Let_def)

theorem profile_and_stopwatch_results_witness:
  "enable exclusive_profiler False = Inr True \<and> disable exclusive_profiler True = Inr False \<and>
   call do_something [Ref 0] [] (new_world (one_list 0 two)) =
     (Inr (Imm (IInt 50)), \<lparr>store = one_list 0 two, calls = [(2, [Ref 0], [])]\<rparr>) \<and>
   profile_wrapped exclusive_profiler do_something [Ref 0] [] (False, new_world (one_list 0 two)) =
     (Inr (Imm (IInt 50)), False, \<lparr>store = one_list 0 two, calls = [(2, [Ref 0], [])]\<rparr>) \<and>
   get_unique_func_name do_something \<in>
     fst ` set (functions_dict (snd (stopwatch_decorate (new_pojang False None) do_something))) \<and>
   fst (stopwatch_wrapper do_something [Ref 0] [] (10, 12)
     (snd (stopwatch_decorate (new_pojang False None) do_something), new_world (one_list 0 two))) =
     Inr (Imm (IInt 50))"
proof -
  have en: "enable exclusive_profiler False = Inr True"
    by (simp add: exclusive_profiler_def)
  have dis: "disable exclusive_profiler True = Inr False"
    by (simp add: exclusive_profiler_def)
  have reg: "get_unique_func_name do_something \<in>
      fst ` set (functions_dict (snd (stopwatch_decorate (new_pojang False None) do_something)))"
    by (simp add: stopwatch_decorate_def Let_def update_decoration_info_def log_msg_def
        uses_print_def new_pojang_def set_input_def)
  note results = profile_and_stopwatch_results [of exclusive_profiler False True do_something
      "[Ref 0]" "[]" "new_world (one_list 0 two)" "Imm (IInt 50)"
      "\<lparr>store = one_list 0 two, calls = [(2, [Ref 0], [])]\<rparr>" False
      "ValueError []" "snd (stopwatch_decorate (new_pojang False None) do_something)" "(10, 12)"]
  from results en dis reg two_func show ?thesis by blast
qed

text \<open>
  C9 as stated fails: with a profiling tool already active in the process,
  \<^verbatim>\<open>enable()\<close> raises, and the wrapped call raises with it although the function
  itself would have returned 50.
\<close>

theorem profile_error_counterexample:
  "fst (call do_something [Ref 0] [] (new_world (one_list 0 two))) = Inr (Imm (IInt 50)) \<and>
   profile_wrapped exclusive_profiler do_something [Ref 0] [] (True, new_world (one_list 0 two)) =
     (Inl (ValueError ''Another profiling tool is already active''), True, new_world (one_list 0 two))"
  by (simp add: profile_wrapped_def exclusive_profiler_def call_ev do_something_def two_def)

end
